theory Spec2Isabelle
  imports Complex_Main "HOL-Library.Word"
begin

section \<open>JavaScript values used by the routes\<close>

text \<open>
  A JavaScript string is a list of characters, one per UTF-16 code unit, so \<open>length\<close> is
  the \<open>.length\<close> of the source. The 8-bit \<open>char\<close> covers the code units below 256.

  A number that reaches the routes comes from \<open>parseInt\<close>: an integer, or \<open>NaN\<close>
  (\<open>Infinity\<close>, which \<open>parseInt\<close> returns on several hundred digits, is left out).
\<close>

datatype jsnum = NaN | Num int

text \<open>
  \<open>Math.floor(n / 5)\<close>. The quotient of the source is a double: it is the exact one as
  long as \<open>n\<close> stays below \<open>5 * 2^51\<close> in size, and can be one larger beyond that. The
  number only labels the request that goes to the search index.
\<close>

fun floorDiv5 :: "jsnum \<Rightarrow> jsnum" where
  "floorDiv5 NaN = NaN"
| "floorDiv5 (Num n) = Num (n div 5)"

text \<open>
  \<open>xs.slice(0, end)\<close>: \<open>NaN\<close> reads as 0, a negative end counts from the end of the
  array, and the result is empty when the end does not lie after the start.
\<close>

fun slice0 :: "'a list \<Rightarrow> jsnum \<Rightarrow> 'a list" where
  "slice0 xs NaN = []"
| "slice0 xs (Num n) =
     (if n < 0 then take (nat (int (length xs) + n)) xs else take (nat n) xs)"

text \<open>\<open>len >= n\<close> on numbers: every comparison with \<open>NaN\<close> is false.\<close>

fun lengthGe :: "nat \<Rightarrow> jsnum \<Rightarrow> bool" where
  "lengthGe len NaN = False"
| "lengthGe len (Num n) = (n \<le> int len)"

subsection \<open>String primitives\<close>

text \<open>\<open>p\<close> stands at the head of \<open>s\<close>.\<close>

fun startsWith :: "string \<Rightarrow> string \<Rightarrow> bool" where
  "startsWith s [] = True"
| "startsWith [] (p # ps) = False"
| "startsWith (c # cs) (p # ps) = (if c = p then startsWith cs ps else False)"

text \<open>\<open>s.includes(p)\<close>.\<close>

fun includes_str :: "string \<Rightarrow> string \<Rightarrow> bool" where
  "includes_str [] p = (p = [])"
| "includes_str (c # cs) p = (startsWith (c # cs) p \<or> includes_str cs p)"

text \<open>
  The class \<open>\s\<close> (also what \<open>trim\<close> removes) among the code units below 256: tab, line
  feed, vertical tab, form feed, carriage return, space and the no-break space.
\<close>

definition isSpace :: "char \<Rightarrow> bool" where
  "isSpace c = (c \<in> set [CHR 0x09, CHR 0x0A, CHR 0x0B, CHR 0x0C, CHR 0x0D, CHR 0x20, CHR 0xA0])"

text \<open>What \<open>.\<close> matches without the \<open>s\<close> flag: anything but a line terminator.\<close>

definition notLineTerminator :: "char \<Rightarrow> bool" where
  "notLineTerminator c = (c \<noteq> CHR 0x0A \<and> c \<noteq> CHR 0x0D)"

definition anyChar :: "char \<Rightarrow> bool" where
  "anyChar c = True"

text \<open>
  \<open>s.replace(/\s+/g, ' ')\<close>: every maximal run of white space becomes one space. The flag
  says that the previous character was white space (its run has been replaced already).
\<close>

fun collapseFrom :: "bool \<Rightarrow> string \<Rightarrow> string" where
  "collapseFrom inRun [] = []"
| "collapseFrom inRun (c # cs) =
     (if isSpace c then (if inRun then collapseFrom True cs else CHR 0x20 # collapseFrom True cs)
      else c # collapseFrom False cs)"

definition collapseSpaces :: "string \<Rightarrow> string" where
  "collapseSpaces s = collapseFrom False s"

definition trim :: "string \<Rightarrow> string" where
  "trim s = rev (dropWhile isSpace (rev (dropWhile isSpace s)))"

text \<open>
  \<open>s.split(sep)\<close> for a non-empty separator: the head of the result is the piece being
  read. The counter skips the rest of a separator that has just been matched.
\<close>

fun splitFrom :: "string \<Rightarrow> nat \<Rightarrow> string \<Rightarrow> string list" where
  "splitFrom sep k [] = [[]]"
| "splitFrom sep k (c # cs) =
     (if 0 < k then splitFrom sep (k - 1) cs
      else if startsWith (c # cs) sep then [] # splitFrom sep (length sep - 1) cs
      else (case splitFrom sep 0 cs of
              piece # pieces \<Rightarrow> (c # piece) # pieces
            | [] \<Rightarrow> [[c]]))"

definition split :: "string \<Rightarrow> string \<Rightarrow> string list" where
  "split s sep = splitFrom sep 0 s"

text \<open>
  The lazy group \<open>(.*?)\<close> followed by the literal \<open>close\<close>: the shortest run of characters
  that \<open>ok\<close> accepts and that \<open>close\<close> follows; \<open>None\<close> when there is none from here.
\<close>

fun lazyUntil :: "(char \<Rightarrow> bool) \<Rightarrow> string \<Rightarrow> string \<Rightarrow> string option" where
  "lazyUntil ok close [] = (if close = [] then Some [] else None)"
| "lazyUntil ok close (c # cs) =
     (if startsWith (c # cs) close then Some []
      else if ok c then map_option ((#) c) (lazyUntil ok close cs)
      else None)"

text \<open>
  \<open>s.match(/open(.*?)close/)\<close>, group 1 of the leftmost match: the first place where
  \<open>open\<close> stands and the lazy group finds \<open>close\<close>.
\<close>

fun matchGroup :: "(char \<Rightarrow> bool) \<Rightarrow> string \<Rightarrow> string \<Rightarrow> string \<Rightarrow> string option" where
  "matchGroup ok opn close [] = None"
| "matchGroup ok opn close (c # cs) =
     (if startsWith (c # cs) opn then
        (case lazyUntil ok close (drop (length opn) (c # cs)) of
           Some g \<Rightarrow> Some g
         | None \<Rightarrow> matchGroup ok opn close cs)
      else matchGroup ok opn close cs)"

text \<open>
  \<open>s.matchAll(/open(.*?)close/g)\<close>, group 1 of every match from left to right; the search
  goes on after the end of a match (the counter skips the rest of it).
\<close>

fun matchAllFrom :: "(char \<Rightarrow> bool) \<Rightarrow> string \<Rightarrow> string \<Rightarrow> nat \<Rightarrow> string \<Rightarrow> string list" where
  "matchAllFrom ok opn close k [] = []"
| "matchAllFrom ok opn close k (c # cs) =
     (if 0 < k then matchAllFrom ok opn close (k - 1) cs
      else if startsWith (c # cs) opn then
        (case lazyUntil ok close (drop (length opn) (c # cs)) of
           Some g \<Rightarrow> g # matchAllFrom ok opn close (length opn + length g + length close - 1) cs
         | None \<Rightarrow> matchAllFrom ok opn close 0 cs)
      else matchAllFrom ok opn close 0 cs)"

definition matchAllGroups :: "(char \<Rightarrow> bool) \<Rightarrow> string \<Rightarrow> string \<Rightarrow> string \<Rightarrow> string list" where
  "matchAllGroups ok opn close s = matchAllFrom ok opn close 0 s"

section \<open>The papers route: the Multi-Query Fetcher\<close>

text \<open>
  \<open>searchArxivPapers\<close> of \<open>src/app/api/papers/route.ts\<close> (lines 55 to 116). The Entry
  Parser is the body of its inner loop (lines 78 to 103).
\<close>

record arxiv_paper =
  paperId :: string
  title :: string
  authors :: "string list"
  abstract :: string
  arxivUrl :: string
  publishedAt :: string
  content :: "string option"

text \<open>One search request: the \<open>search_query\<close> text and the two interpolated numbers.\<close>

record arxiv_query =
  search_query :: string
  start :: jsnum
  max_results :: jsnum

text \<open>
  What \<open>await fetch(url)\<close> followed by \<open>await response.text()\<close> gives: the body, or a
  rejection of either promise. \<open>fetch\<close> does not reject on an HTTP error status.
\<close>

datatype fetch_result = Rejected | Body string

text \<open>
  The world the fetcher runs in: the search index (the five requests of a run differ in
  their query text, so a function of the request covers every run), the rendering of the
  k-th result of
  \<open>Math.random()\<close> in a template literal, the k-th result of
  \<open>new Date().toISOString()\<close>, and \<open>new Date(s).getTime()\<close> (\<open>None\<close> is \<open>NaN\<close>, an
  invalid date).
\<close>

record fetch_env =
  fetchArxiv :: "arxiv_query \<Rightarrow> fetch_result"
  mathRandom :: "nat \<Rightarrow> string"
  nowISO :: "nat \<Rightarrow> string"
  dateTime :: "string \<Rightarrow> int option"

definition searchQueries :: "jsnum \<Rightarrow> jsnum \<Rightarrow> arxiv_query list" where
  "searchQueries maxResults offset =
     map (\<lambda>q. \<lparr>search_query = q, start = offset, max_results = floorDiv5 maxResults\<rparr>)
       [''cat:cs.AI+OR+cat:cs.LG+OR+cat:cs.CL+OR+cat:cs.CV+OR+cat:cs.NE'',
        ''cat:stat.ML+OR+cat:cs.IR+OR+cat:cs.HC+OR+cat:cs.CR'',
        ''all:'' @ [CHR 0x22] @ ''machine learning'' @ [CHR 0x22] @ ''+OR+'' @ [CHR 0x22]
          @ ''deep learning'' @ [CHR 0x22] @ ''+OR+'' @ [CHR 0x22] @ ''neural network''
          @ [CHR 0x22] @ ''+OR+'' @ [CHR 0x22] @ ''large language model'' @ [CHR 0x22],
        ''all:'' @ [CHR 0x22] @ ''transformer'' @ [CHR 0x22] @ ''+OR+'' @ [CHR 0x22]
          @ ''attention'' @ [CHR 0x22] @ ''+OR+'' @ [CHR 0x22] @ ''GPT'' @ [CHR 0x22]
          @ ''+OR+'' @ [CHR 0x22] @ ''BERT'' @ [CHR 0x22],
        ''all:'' @ [CHR 0x22] @ ''reinforcement learning'' @ [CHR 0x22] @ ''+OR+''
          @ [CHR 0x22] @ ''AI ethics'' @ [CHR 0x22] @ ''+OR+'' @ [CHR 0x22]
          @ ''foundation model'' @ [CHR 0x22]]"

text \<open>
  The calls of \<open>Math.random()\<close> and of \<open>new Date()\<close> made so far.
\<close>

record counters =
  randomCalls :: nat
  clockCalls :: nat

text \<open>
  The body of the loop over the entries up to the test: the fields read from one entry,
  and the counters after it. \<open>abstractOf\<close> is the extracted, whitespace-normalised
  abstract, \<open>abstractMatch ? abstractMatch[1].replace(/\s+/g, ' ').trim() : ''\<close>.
\<close>

definition abstractOf :: "string \<Rightarrow> string" where
  "abstractOf entry =
     (case matchGroup anyChar ''<summary>'' ''</summary>'' entry of
        Some a \<Rightarrow> trim (collapseSpaces a)
      | None \<Rightarrow> [])"

definition parseEntry :: "fetch_env \<Rightarrow> counters \<Rightarrow> string \<Rightarrow> arxiv_paper \<times> counters" where
  "parseEntry env w entry =
     (let titleMatch = matchGroup anyChar ''<title>'' ''</title>'' entry;
          authorMatches = matchAllGroups notLineTerminator ''<name>'' ''</name>'' entry;
          idMatch = matchGroup notLineTerminator ''<id>'' ''</id>'' entry;
          publishedMatch = matchGroup notLineTerminator ''<published>'' ''</published>'' entry;
          title = (case titleMatch of Some t \<Rightarrow> trim (collapseSpaces t) | None \<Rightarrow> ''Unknown Title'');
          authors = map trim authorMatches;
          abstract = abstractOf entry;
          arxivId = (case idMatch of Some i \<Rightarrow> last (split i ''/'')
                     | None \<Rightarrow> ''paper_'' @ mathRandom env (randomCalls w));
          arxivUrl = (case idMatch of Some i \<Rightarrow> i | None \<Rightarrow> ''https://arxiv.org/abs/'' @ arxivId);
          publishedAt = (case publishedMatch of Some p \<Rightarrow> p | None \<Rightarrow> nowISO env (clockCalls w))
      in (\<lparr>paperId = arxivId, title = title, authors = authors, abstract = abstract,
            arxivUrl = arxivUrl, publishedAt = publishedAt, content = None\<rparr>,
          \<lparr>randomCalls = (if idMatch = None then Suc (randomCalls w) else randomCalls w),
           clockCalls = (if publishedMatch = None then Suc (clockCalls w) else clockCalls w)\<rparr>))"

record fetcher_state =
  allPapers :: "arxiv_paper list"
  seenIds :: "string list"
  calls :: counters

text \<open>One turn of the loop over the entries: skip duplicates and very short abstracts.\<close>

definition processEntry :: "fetch_env \<Rightarrow> fetcher_state \<Rightarrow> string \<Rightarrow> fetcher_state" where
  "processEntry env st entry =
     (case parseEntry env (calls st) entry of (p, w) \<Rightarrow>
        if paperId p \<notin> set (seenIds st) \<and> 100 < length (abstract p)
        then \<lparr>allPapers = allPapers st @ [p], seenIds = seenIds st @ [paperId p], calls = w\<rparr>
        else st\<lparr>calls := w\<rparr>)"

text \<open>\<open>xmlText.split('<entry>').slice(1)\<close>.\<close>

definition entriesOf :: "string \<Rightarrow> string list" where
  "entriesOf xmlText = tl (split xmlText ''<entry>'')"

text \<open>
  The loop over the queries, inside the \<open>try\<close>: \<open>None\<close> when a fetch rejects, which leaves
  the loop for the handler.
\<close>

fun queryLoop :: "fetch_env \<Rightarrow> fetcher_state \<Rightarrow> arxiv_query list \<Rightarrow> fetcher_state option" where
  "queryLoop env st [] = Some st"
| "queryLoop env st (q # qs) =
     (case fetchArxiv env q of
        Rejected \<Rightarrow> None
      | Body xmlText \<Rightarrow> queryLoop env (foldl (processEntry env) st (entriesOf xmlText)) qs)"

text \<open>
  The comparison function of the sort,
  \<open>new Date(b.publishedAt).getTime() - new Date(a.publishedAt).getTime()\<close>; \<open>None\<close> is
  \<open>NaN\<close>.
\<close>

definition compareFn :: "(string \<Rightarrow> int option) \<Rightarrow> arxiv_paper \<Rightarrow> arxiv_paper \<Rightarrow> int option" where
  "compareFn dt a b =
     (case (dt (publishedAt b), dt (publishedAt a)) of
        (Some tb, Some ta) \<Rightarrow> Some (tb - ta)
      | _ \<Rightarrow> None)"

text \<open>
  \<open>Array.prototype.sort\<close> with a comparison function: the sort is stable, and a result
  of \<open>NaN\<close> counts as 0. With a consistent comparison every stable sort returns the same
  array; otherwise the order is left to the engine, and the model is the stable insertion
  sort. On an inconsistent comparison (a timestamp that does not parse) the model agrees
  with V8 where V8 finds the array to be one run, as in the run on \<open>undatedIndex\<close>
  below, and may order other arrays differently; the general facts below use the sort
  only where every timestamp parses, or only as a permutation.
\<close>

definition sortCompare :: "('a \<Rightarrow> 'a \<Rightarrow> int option) \<Rightarrow> 'a \<Rightarrow> 'a \<Rightarrow> int" where
  "sortCompare cmp x y = (case cmp x y of None \<Rightarrow> 0 | Some v \<Rightarrow> v)"

fun insertSorted :: "('a \<Rightarrow> 'a \<Rightarrow> int option) \<Rightarrow> 'a \<Rightarrow> 'a list \<Rightarrow> 'a list" where
  "insertSorted cmp x [] = [x]"
| "insertSorted cmp x (y # ys) =
     (if 0 < sortCompare cmp x y then y # insertSorted cmp x ys else x # y # ys)"

definition sortBy :: "('a \<Rightarrow> 'a \<Rightarrow> int option) \<Rightarrow> 'a list \<Rightarrow> 'a list" where
  "sortBy cmp xs = foldr (insertSorted cmp) xs []"

definition initialState :: fetcher_state where
  "initialState = \<lparr>allPapers = [], seenIds = [], calls = \<lparr>randomCalls = 0, clockCalls = 0\<rparr>\<rparr>"

definition searchArxivPapers :: "fetch_env \<Rightarrow> jsnum \<Rightarrow> jsnum \<Rightarrow> arxiv_paper list" where
  "searchArxivPapers env maxResults offset =
     (case queryLoop env initialState (searchQueries maxResults offset) of
        None \<Rightarrow> []
      | Some st \<Rightarrow> slice0 (sortBy (compareFn (dateTime env)) (allPapers st)) maxResults)"

section \<open>The papers route: the Paper Enricher\<close>

text \<open>\<open>processPaperWithLLM\<close> of \<open>src/app/api/papers/route.ts\<close> (lines 119 to 219).\<close>

text \<open>
  What \<open>JSON.parse\<close> returns. A number is the value of the double it stands for; an
  object is the list of its properties, read with \<open>map_of\<close>.
\<close>

datatype json =
  JNull
| JBool bool
| JNum rat
| JStr string
| JArr "json list"
| JObj "(string \<times> json) list"

text \<open>Truthiness: \<open>null\<close>, \<open>false\<close>, zero and the empty string are falsy.\<close>

fun truthy :: "json \<Rightarrow> bool" where
  "truthy JNull = False"
| "truthy (JBool b) = b"
| "truthy (JNum x) = (x \<noteq> 0)"
| "truthy (JStr s) = (s \<noteq> [])"
| "truthy (JArr xs) = True"
| "truthy (JObj kvs) = True"

text \<open>
  \<open>extracted.key\<close> for the four keys the route reads (\<open>tag\<close>, \<open>question\<close>, \<open>answer\<close>,
  \<open>bet\<close>, which no built-in prototype defines): reading a property of \<open>null\<close> throws
  (the outer \<open>None\<close>), an object gives its property or \<open>undefined\<close> (the inner \<open>None\<close>),
  every other value gives \<open>undefined\<close>.
\<close>

fun getProp :: "json \<Rightarrow> string \<Rightarrow> json option option" where
  "getProp JNull k = None"
| "getProp (JObj kvs) k = Some (map_of kvs k)"
| "getProp v k = Some None"

text \<open>\<open>v || 'default'\<close>.\<close>

fun orDefault :: "json option \<Rightarrow> string \<Rightarrow> json" where
  "orDefault None d = JStr d"
| "orDefault (Some v) d = (if truthy v then v else JStr d)"

text \<open>The four local variables \<open>tag\<close>, \<open>question\<close>, \<open>answer\<close> and \<open>bet\<close>.\<close>

record enrichment =
  tagVar :: json
  questionVar :: json
  answerVar :: json
  betVar :: json

definition defaultEnrichment :: enrichment where
  "defaultEnrichment =
     \<lparr>tagVar = JStr ''ML research'',
      questionVar = JStr ''Q: Research question not extracted'',
      answerVar = JStr ''A: Core idea not extracted'',
      betVar = JStr ''Philosophical assumption not extracted''\<rparr>"

text \<open>
  The four assignments inside the inner \<open>try\<close>, in their order; a property read that
  throws leaves the remaining variables as they are.
\<close>

definition extractFields :: "json \<Rightarrow> enrichment \<Rightarrow> enrichment" where
  "extractFields extracted e0 =
     (case getProp extracted ''tag'' of None \<Rightarrow> e0 | Some t \<Rightarrow>
        let e1 = e0\<lparr>tagVar := orDefault t ''ML research''\<rparr> in
        case getProp extracted ''question'' of None \<Rightarrow> e1 | Some q \<Rightarrow>
          let e2 = e1\<lparr>questionVar := orDefault q ''Q: Research question not extracted''\<rparr> in
          case getProp extracted ''answer'' of None \<Rightarrow> e2 | Some a \<Rightarrow>
            let e3 = e2\<lparr>answerVar := orDefault a ''A: Core idea not extracted''\<rparr> in
            case getProp extracted ''bet'' of None \<Rightarrow> e3 | Some b \<Rightarrow>
              e3\<lparr>betVar := orDefault b ''Philosophical assumption not extracted''\<rparr>)"

text \<open>
  The length of the match of \<open>```json\n?|\n?```\<close> at the head of the string, 0 when
  there is none.
\<close>

definition fenceLength :: "string \<Rightarrow> nat" where
  "fenceLength s =
     (if startsWith s (''```json'' @ [CHR 0x0A]) then 8
      else if startsWith s ''```json'' then 7
      else if startsWith s (CHR 0x0A # ''```'') then 4
      else if startsWith s ''```'' then 3
      else 0)"

text \<open>\<open>s.replace(/```json\n?|\n?```/g, '')\<close>; the counter skips the rest of a match.\<close>

fun stripFrom :: "nat \<Rightarrow> string \<Rightarrow> string" where
  "stripFrom k [] = []"
| "stripFrom k (c # cs) =
     (if 0 < k then stripFrom (k - 1) cs
      else (case fenceLength (c # cs) of
              0 \<Rightarrow> c # stripFrom 0 cs
            | Suc n \<Rightarrow> stripFrom n cs))"

definition cleanResponse :: "string \<Rightarrow> string" where
  "cleanResponse responseContent = trim (stripFrom 0 responseContent)"

text \<open>
  The outcome of the completion call: the \<open>try\<close> block raises before
  \<open>responseContent\<close> is read (the client cannot be built, the call rejects, or the
  completion has no \<open>choices\<close>), or \<open>completion.choices[0]?.message?.content\<close> is read, a
  string or \<open>null\<close>/\<open>undefined\<close>. What is raised is an \<open>Error\<close> object, so the handler's
  own read of \<open>error.response\<close> succeeds.
\<close>

datatype llm_result = LLMRaises | LLMContent "string option"

text \<open>
  \<open>ProcessedPaper\<close>. The four fields hold the default string or whatever truthy value the
  parsed response had under the key: the route does not check that it is a string.
\<close>

record processed_paper = arxiv_paper +
  tag :: json
  question :: json
  answer :: json
  bet :: json

text \<open>\<open>{...paper, tag, question, answer, bet, content: ''}\<close>.\<close>

definition withEnrichment :: "arxiv_paper \<Rightarrow> enrichment \<Rightarrow> processed_paper" where
  "withEnrichment paper e =
     \<lparr>paperId = paperId paper, title = title paper, authors = authors paper,
      abstract = abstract paper, arxivUrl = arxivUrl paper, publishedAt = publishedAt paper,
      content = Some [],
      tag = tagVar e, question = questionVar e, answer = answerVar e, bet = betVar e\<rparr>"

text \<open>
  \<open>jsonParse\<close> is \<open>JSON.parse\<close>, \<open>None\<close> when it throws. The prompt is built from the
  title and the abstract and goes to the completion call only.
\<close>

definition processPaperWithLLM ::
  "(string \<Rightarrow> json option) \<Rightarrow> llm_result \<Rightarrow> arxiv_paper \<Rightarrow> processed_paper" where
  "processPaperWithLLM jsonParse completion paper =
     (case completion of
        LLMRaises \<Rightarrow> withEnrichment paper defaultEnrichment
      | LLMContent responseContent \<Rightarrow>
          withEnrichment paper
            (case responseContent of
               None \<Rightarrow> defaultEnrichment
             | Some s \<Rightarrow>
                 if s = [] then defaultEnrichment
                 else (case jsonParse (cleanResponse s) of
                         None \<Rightarrow> defaultEnrichment
                       | Some extracted \<Rightarrow> extractFields extracted defaultEnrichment)))"

section \<open>The papers route: the Aggregation Endpoint\<close>

text \<open>\<open>GET\<close> of \<open>src/app/api/papers/route.ts\<close> (lines 221 to 249).\<close>

record papers_request =
  limitParam :: "string option"
  offsetParam :: "string option"

record services =
  arxiv :: fetch_env
  parseInt :: "string \<Rightarrow> jsnum"
  complete :: "arxiv_paper \<Rightarrow> llm_result"
  parseJSON :: "string \<Rightarrow> json option"

record papers_response =
  papers :: "processed_paper list"
  total :: nat
  offset :: jsnum
  hasMore :: bool
  categories :: "string list"

datatype 'a reply = ErrorReply nat string | JsonReply 'a

text \<open>\<open>searchParams.get(name) || 'default'\<close>.\<close>

fun orString :: "string option \<Rightarrow> string \<Rightarrow> string" where
  "orString None d = d"
| "orString (Some s) d = (if s = [] then d else s)"

definition requestedLimit :: "services \<Rightarrow> papers_request \<Rightarrow> jsnum" where
  "requestedLimit svc req = parseInt svc (orString (limitParam req) ''30'')"

text \<open>
  Neither \<open>searchArxivPapers\<close> nor \<open>processPaperWithLLM\<close> rejects, so the handler of the
  route (status 500) is not reached.
\<close>

definition GET_papers :: "services \<Rightarrow> papers_request \<Rightarrow> papers_response reply" where
  "GET_papers svc req =
     (let limit = requestedLimit svc req;
          offset = parseInt svc (orString (offsetParam req) ''0'');
          papers = searchArxivPapers (arxiv svc) limit offset;
          processedPapers = map (\<lambda>paper. processPaperWithLLM (parseJSON svc) (complete svc paper) paper) papers
      in JsonReply
           \<lparr>papers = processedPapers, total = length processedPapers, offset = offset,
            hasMore = lengthGe (length processedPapers) limit,
            categories = [''cs.AI'', ''cs.LG'', ''cs.CL'', ''cs.CV'', ''cs.NE'', ''stat.ML'',
                          ''cs.IR'', ''cs.HC'', ''cs.CR'']\<rparr>)"

section \<open>The content route: the Content Fetcher\<close>

text \<open>
  \<open>fetchFullPaperContent\<close> and \<open>GET\<close> of \<open>src/app/api/papers/[id]/content/route.ts\<close>
  (lines 4 to 115 and 122 to 151).
\<close>

text \<open>
  One request of the Content Fetcher: \<open>fetch\<close> or the read of the body rejects; the
  response is not \<open>ok\<close> (the body is then not read); or it is \<open>ok\<close> with its body.
\<close>

datatype 'a http = HttpRejected | HttpNotOk | HttpOk 'a

text \<open>
  The three document endpoints by paper id, \<open>TextDecoder.decode\<close>, and the two chains of
  \<open>replace\<close> calls that turn HTML and LaTeX into text; the route only reads the length of
  what the chains return.
\<close>

record content_env =
  fetchSource :: "string \<Rightarrow> 8 word list http"
  fetchHtml :: "string \<Rightarrow> string http"
  fetchLatex :: "string \<Rightarrow> string http"
  decodeUtf8 :: "8 word list \<Rightarrow> string"
  htmlToText :: "string \<Rightarrow> string"
  latexToText :: "string \<Rightarrow> string"

text \<open>\<open>uint8Array[0] === 0x1f && uint8Array[1] === 0x8b\<close>; a missing byte is \<open>undefined\<close>.\<close>

fun isGzip :: "8 word list \<Rightarrow> bool" where
  "isGzip (a # b # rest) = (a = 0x1F \<and> b = 0x8B)"
| "isGzip other = False"

text \<open>The class \<open>[\x20-\x7E\n\r\t]\<close>.\<close>

definition isPrintable :: "char \<Rightarrow> bool" where
  "isPrintable c =
     ((0x20 \<le> (of_char c :: nat) \<and> (of_char c :: nat) \<le> 0x7E)
      \<or> c = CHR 0x0A \<or> c = CHR 0x0D \<or> c = CHR 0x09)"

text \<open>
  \<open>printableChars / totalChars < 0.7\<close>. On an empty string the quotient is \<open>NaN\<close> and the
  test is false; otherwise the double comparison agrees with the exact one for every
  length a string can have.
\<close>

definition looksBinary :: "nat \<Rightarrow> nat \<Rightarrow> bool" where
  "looksBinary printableChars totalChars =
     (totalChars \<noteq> 0 \<and> 10 * printableChars < 7 * totalChars)"

text \<open>
  Each method gives \<open>Some\<close> text when it returns from the function, and \<open>None\<close> when it
  falls through to the next one: the response is not \<open>ok\<close>, the text is not longer than
  1000 characters, or something throws and the method's handler logs it.
\<close>

definition textFormat :: "content_env \<Rightarrow> string \<Rightarrow> string option" where
  "textFormat env arxivId =
     (case fetchSource env arxivId of
        HttpOk buffer \<Rightarrow>
          if isGzip buffer then None
          else
            let decoded = decodeUtf8 env buffer;
                printableChars = length (filter isPrintable decoded);
                totalChars = length decoded
            in if looksBinary printableChars totalChars then None
               else if 1000 < length decoded then Some decoded
               else None
      | HttpNotOk \<Rightarrow> None
      | HttpRejected \<Rightarrow> None)"

definition htmlExtraction :: "content_env \<Rightarrow> string \<Rightarrow> string option" where
  "htmlExtraction env arxivId =
     (case fetchHtml env arxivId of
        HttpOk html \<Rightarrow>
          let extracted = htmlToText env html
          in if 1000 < length extracted then Some extracted else None
      | HttpNotOk \<Rightarrow> None
      | HttpRejected \<Rightarrow> None)"

definition latexSource :: "content_env \<Rightarrow> string \<Rightarrow> string option" where
  "latexSource env arxivId =
     (case fetchLatex env arxivId of
        HttpOk latex \<Rightarrow>
          let extracted = latexToText env latex
          in if 1000 < length extracted then Some extracted else None
      | HttpNotOk \<Rightarrow> None
      | HttpRejected \<Rightarrow> None)"

definition unavailableMessage :: "string \<Rightarrow> string" where
  "unavailableMessage arxivId =
     ''Full paper content extraction is currently unavailable for this paper.''
     @ [CHR 0x0A, CHR 0x0A] @ ''Paper ID: '' @ arxivId
     @ [CHR 0x0A] @ ''Direct PDF link: https://arxiv.org/pdf/'' @ arxivId @ ''.pdf''
     @ [CHR 0x0A, CHR 0x0A]
     @ ''The automatic text extraction encountered issues. Please use the arXiv link above to view the full paper directly.''"

text \<open>
  What the handler of the outer \<open>try\<close> returns. Every statement that can throw stands
  inside one of the three inner \<open>try\<close> blocks, whose handlers read \<open>error.message\<close> of an
  \<open>Error\<close> object and fall through, so no run of \<open>fetchFullPaperContent\<close> reaches it.
\<close>

definition errorMessage :: "string \<Rightarrow> string" where
  "errorMessage arxivId =
     ''Error fetching paper content for '' @ arxivId @ ''. Please visit arXiv directly.''"

definition fetchFullPaperContent :: "content_env \<Rightarrow> string \<Rightarrow> string" where
  "fetchFullPaperContent env arxivId =
     (case textFormat env arxivId of
        Some t \<Rightarrow> t
      | None \<Rightarrow>
          (case htmlExtraction env arxivId of
             Some t \<Rightarrow> t
           | None \<Rightarrow>
               (case latexSource env arxivId of
                  Some t \<Rightarrow> t
                | None \<Rightarrow> unavailableMessage arxivId)))"

record content_response =
  responseId :: string
  responseContent :: string
  hasContent :: bool

definition GET_content :: "content_env \<Rightarrow> string \<Rightarrow> content_response reply" where
  "GET_content env arxivId =
     (if arxivId = [] then ErrorReply 400 ''Paper ID is required''
      else
        let fetched = fetchFullPaperContent env arxivId
        in JsonReply \<lparr>responseId = arxivId, responseContent = fetched,
                      hasContent = (0 < length fetched)\<rparr>)"

section \<open>Notions used to state the properties\<close>

text \<open>
  The Papers the loop builds, one per entry, in the order of the entries across the
  queries and before the test that skips duplicates and short abstracts. The counters
  advance on every entry, kept or not.
\<close>

fun builtEntries :: "fetch_env \<Rightarrow> counters \<Rightarrow> string list \<Rightarrow> arxiv_paper list" where
  "builtEntries env w [] = []"
| "builtEntries env w (e # es) =
     fst (parseEntry env w e) # builtEntries env (snd (parseEntry env w e)) es"

definition countersAfter :: "fetch_env \<Rightarrow> counters \<Rightarrow> string list \<Rightarrow> counters" where
  "countersAfter env w es = foldl (\<lambda>v e. snd (parseEntry env v e)) w es"

fun builtQueries :: "fetch_env \<Rightarrow> counters \<Rightarrow> arxiv_query list \<Rightarrow> arxiv_paper list" where
  "builtQueries env w [] = []"
| "builtQueries env w (q # qs) =
     (case fetchArxiv env q of
        Rejected \<Rightarrow> []
      | Body xmlText \<Rightarrow>
          builtEntries env w (entriesOf xmlText)
          @ builtQueries env (countersAfter env w (entriesOf xmlText)) qs)"

definition builtPapers :: "fetch_env \<Rightarrow> jsnum \<Rightarrow> jsnum \<Rightarrow> arxiv_paper list" where
  "builtPapers env maxResults offs =
     builtQueries env (calls initialState) (searchQueries maxResults offs)"

text \<open>A built Paper with the id \<open>i\<close> that passes the discard rule.\<close>

definition emitted :: "string \<Rightarrow> arxiv_paper \<Rightarrow> bool" where
  "emitted i c = (paperId c = i \<and> 100 < length (abstract c))"

text \<open>\<open>allPapers\<close> when the loop over the queries ends, before the sort.\<close>

definition mergedPapers :: "fetch_env \<Rightarrow> jsnum \<Rightarrow> jsnum \<Rightarrow> arxiv_paper list" where
  "mergedPapers env maxResults offs =
     (case queryLoop env initialState (searchQueries maxResults offs) of
        None \<Rightarrow> []
      | Some st \<Rightarrow> allPapers st)"

text \<open>Both timestamps parse, and the first is not older than the second.\<close>

definition newerFirst :: "(string \<Rightarrow> int option) \<Rightarrow> arxiv_paper \<Rightarrow> arxiv_paper \<Rightarrow> bool" where
  "newerFirst dt a b =
     (case (dt (publishedAt a), dt (publishedAt b)) of
        (Some ta, Some tb) \<Rightarrow> tb \<le> ta
      | _ \<Rightarrow> False)"

text \<open>
  The timestamps that parse never increase along the list. Every reading of a list sorted by
  \<open>publishedAt\<close> descending asks at least this, wherever it puts the values that do
  not parse.
\<close>

definition descendingByTime :: "(string \<Rightarrow> int option) \<Rightarrow> arxiv_paper list \<Rightarrow> bool" where
  "descendingByTime dt ps =
     sorted_wrt (\<lambda>x y. y \<le> x) (List.map_filter (\<lambda>p. dt (publishedAt p)) ps)"

text \<open>
  The invariant of the merge, with \<open>built\<close> the Papers built so far: \<open>seenIds\<close> lists the
  ids of \<open>allPapers\<close> without repetition, every kept Paper is the first built Paper with
  its id that passes the discard rule, and every built Paper that passes it has its id in
  \<open>seenIds\<close>.
\<close>

definition mergeInv :: "fetcher_state \<Rightarrow> arxiv_paper list \<Rightarrow> bool" where
  "mergeInv st built =
     (seenIds st = map paperId (allPapers st) \<and> distinct (seenIds st)
      \<and> (\<forall>p \<in> set (allPapers st). find (emitted (paperId p)) built = Some p)
      \<and> (\<forall>c \<in> set built. 100 < length (abstract c) \<longrightarrow> paperId c \<in> set (seenIds st)))"

text \<open>
  The property \<open>k\<close> is missing from the parsed value (or cannot be read), or it is there
  with a falsy value.
\<close>

definition absentOrFalsy :: "json \<Rightarrow> string \<Rightarrow> bool" where
  "absentOrFalsy extracted k =
     (case getProp extracted k of
        None \<Rightarrow> True
      | Some None \<Rightarrow> True
      | Some (Some v) \<Rightarrow> \<not> truthy v)"

section \<open>Concrete runs\<close>

text \<open>
  A stub of the search index for the runs below. An entry has the shape of an entry of
  the Atom feed; \<open>feedOf\<close> is a response body with the given entries.
\<close>

definition longAbstract :: string where
  "longAbstract = replicate 101 (CHR ''a'')"

definition entryBody :: "string \<Rightarrow> string \<Rightarrow> string \<Rightarrow> string \<Rightarrow> string" where
  "entryBody ident published heading summary =
     ''<id>http://arxiv.org/abs/'' @ ident @ ''</id><published>'' @ published
     @ ''</published><title>'' @ heading @ ''</title><summary>'' @ summary
     @ ''</summary><author><name>Ada</name></author></entry>''"

definition feedOf :: "string list \<Rightarrow> string" where
  "feedOf bodies = ''<feed>'' @ concat (map (\<lambda>b. ''<entry>'' @ b) bodies)"

definition mkPaper :: "string \<Rightarrow> string \<Rightarrow> string \<Rightarrow> string \<Rightarrow> arxiv_paper" where
  "mkPaper ident published heading summary =
     \<lparr>paperId = ident, title = heading, authors = [''Ada''], abstract = summary,
      arxivUrl = ''http://arxiv.org/abs/'' @ ident, publishedAt = published, content = None\<rparr>"

definition entryFirst :: string where
  "entryFirst = entryBody ''2401.00001v1'' ''2020-01-01T00:00:00Z'' ''First'' longAbstract"

definition entryStub :: string where
  "entryStub = entryBody ''2401.00002v1'' ''2020-01-01T00:00:00Z'' ''Stub'' ''Too short.''"

definition entryAgain :: string where
  "entryAgain = entryBody ''2401.00001v1'' ''2021-01-01T00:00:00Z'' ''Again'' longAbstract"

definition entrySecond :: string where
  "entrySecond = entryBody ''2401.00002v1'' ''2021-01-01T00:00:00Z'' ''Second'' longAbstract"

definition entryUndated :: string where
  "entryUndated = entryBody ''2401.00003v1'' [] ''Undated'' longAbstract"

definition paperFirst :: arxiv_paper where
  "paperFirst = mkPaper ''2401.00001v1'' ''2020-01-01T00:00:00Z'' ''First'' longAbstract"

definition paperStub :: arxiv_paper where
  "paperStub = mkPaper ''2401.00002v1'' ''2020-01-01T00:00:00Z'' ''Stub'' ''Too short.''"

definition paperAgain :: arxiv_paper where
  "paperAgain = mkPaper ''2401.00001v1'' ''2021-01-01T00:00:00Z'' ''Again'' longAbstract"

definition paperSecond :: arxiv_paper where
  "paperSecond = mkPaper ''2401.00002v1'' ''2021-01-01T00:00:00Z'' ''Second'' longAbstract"

definition paperUndated :: arxiv_paper where
  "paperUndated = mkPaper ''2401.00003v1'' [] ''Undated'' longAbstract"

text \<open>
  \<open>new Date(s).getTime()\<close> on the three \<open>publishedAt\<close> values of the runs: the two
  instants in milliseconds, and \<open>NaN\<close> for the empty string.
\<close>

definition stubDate :: "string \<Rightarrow> int option" where
  "stubDate s =
     (if s = ''2020-01-01T00:00:00Z'' then Some 1577836800000
      else if s = ''2021-01-01T00:00:00Z'' then Some 1609459200000
      else None)"

text \<open>
  An index that answers the first query (the \<open>cs\<close> categories) with \<open>first\<close>, the second
  (the \<open>stat.ML\<close> group) with \<open>second\<close> and the three keyword queries with an empty feed.
\<close>

definition stubIndex :: "fetch_result \<Rightarrow> fetch_result \<Rightarrow> fetch_env" where
  "stubIndex first second =
     \<lparr>fetchArxiv = (\<lambda>q. if startsWith (search_query q) ''cat:cs.'' then first
                         else if startsWith (search_query q) ''cat:stat.'' then second
                         else Body ''<feed>''),
      mathRandom = (\<lambda>k. ''0.5''),
      nowISO = (\<lambda>k. ''2021-01-01T00:00:00Z''),
      dateTime = stubDate\<rparr>"

text \<open>
  The id \<open>2401.00001v1\<close> comes back from both queries; \<open>2401.00002v1\<close> has a stub abstract
  in the first query and a full one in the second.
\<close>

definition dupIndex :: fetch_env where
  "dupIndex =
     stubIndex (Body (feedOf [entryFirst, entryStub])) (Body (feedOf [entryAgain, entrySecond]))"

text \<open>The second of three entries has an empty \<open><published>\<close> element.\<close>

definition undatedIndex :: fetch_env where
  "undatedIndex =
     stubIndex (Body (feedOf [entryFirst, entryUndated, entrySecond])) (Body ''<feed>'')"

text \<open>The first query returns one entry; the fetch of the second query rejects.\<close>

definition failingIndex :: fetch_env where
  "failingIndex = stubIndex (Body (feedOf [entryFirst])) Rejected"

definition noCalls :: counters where
  "noCalls = \<lparr>randomCalls = 0, clockCalls = 0\<rparr>"

text \<open>
  A completion wrapped in a code fence, \<open>{"tag":"","question":"Why?"}\<close> inside, and
  \<open>JSON.parse\<close> on that text.
\<close>

definition replyJson :: string where
  "replyJson =
     ''{'' @ [CHR 0x22] @ ''tag'' @ [CHR 0x22] @ '':'' @ [CHR 0x22, CHR 0x22] @ '',''
     @ [CHR 0x22] @ ''question'' @ [CHR 0x22] @ '':'' @ [CHR 0x22] @ ''Why?'' @ [CHR 0x22] @ ''}''"

definition fencedReply :: string where
  "fencedReply = ''```json'' @ [CHR 0x0A] @ replyJson @ [CHR 0x0A] @ ''```''"

definition parsedReply :: json where
  "parsedReply = JObj [(''tag'', JStr []), (''question'', JStr ''Why?'')]"

definition stubParse :: "string \<Rightarrow> json option" where
  "stubParse s = (if s = replyJson then Some parsedReply else None)"

text \<open>A request \<open>GET /papers?limit=2\<close> on the index \<open>dupIndex\<close>, with a completion service that is down.\<close>

definition stubParseInt :: "string \<Rightarrow> jsnum" where
  "stubParseInt s =
     (if s = ''2'' then Num 2 else if s = ''30'' then Num 30 else if s = ''0'' then Num 0 else NaN)"

definition stubServices :: services where
  "stubServices =
     \<lparr>arxiv = dupIndex, parseInt = stubParseInt, complete = (\<lambda>paper. LLMRaises),
      parseJSON = stubParse\<rparr>"

definition limitTwo :: papers_request where
  "limitTwo = \<lparr>limitParam = Some ''2'', offsetParam = None\<rparr>"

definition limitTwoReply :: papers_response where
  "limitTwoReply =
     \<lparr>papers = [withEnrichment paperSecond defaultEnrichment,
                 withEnrichment paperFirst defaultEnrichment],
      total = 2, offset = Num 0, hasMore = True,
      categories = [''cs.AI'', ''cs.LG'', ''cs.CL'', ''cs.CV'', ''cs.NE'', ''stat.ML'',
                    ''cs.IR'', ''cs.HC'', ''cs.CR'']\<rparr>"

text \<open>A request \<open>GET /papers?limit=abc\<close>: \<open>parseInt\<close> gives \<open>NaN\<close>.\<close>

definition limitJunk :: papers_request where
  "limitJunk = \<lparr>limitParam = Some ''abc'', offsetParam = None\<rparr>"

definition limitJunkReply :: papers_response where
  "limitJunkReply =
     \<lparr>papers = [], total = 0, offset = Num 0, hasMore = False,
      categories = [''cs.AI'', ''cs.LG'', ''cs.CL'', ''cs.CV'', ''cs.NE'', ''stat.ML'',
                    ''cs.IR'', ''cs.HC'', ''cs.CR'']\<rparr>"

text \<open>
  Document endpoints on which every method fails: the source is a gzip archive, the HTML
  page is an error page (\<open>htmlToText\<close> gives what the chain of the route gives on it),
  and the third fetch rejects.
\<close>

definition downEnv :: content_env where
  "downEnv =
     \<lparr>fetchSource = (\<lambda>i. HttpOk [0x1F, 0x8B, 0x08]),
      fetchHtml = (\<lambda>i. HttpOk ''<p>Not found</p>''),
      fetchLatex = (\<lambda>i. HttpRejected),
      decodeUtf8 = (\<lambda>b. []),
      htmlToText = (\<lambda>h. ''Not found''),
      latexToText = (\<lambda>l. l)\<rparr>"

section \<open>Facts about the string primitives and the sort\<close>

lemma splitFrom_not_empty: "splitFrom sep k s \<noteq> []"
  by (induction s arbitrary: k) (auto split: list.splits)

lemma split_not_empty: "split s sep \<noteq> []"
  by (simp add: split_def splitFrom_not_empty)

lemma startsWith_append: "startsWith (p @ s) p"
  by (induction p) simp_all

lemma includes_str_append: "includes_str (a @ p @ b) p"
proof (induction a)
  case Nil
  show ?case
  proof (cases "p @ b")
    case Nil
    then show ?thesis by simp
  next
    case (Cons c cs)
    with startsWith_append [of p b] show ?thesis by simp
  qed
next
  case (Cons c a)
  then show ?case by simp
qed

lemma find_append_cases:
  "find P (xs @ ys) = (case find P xs of None \<Rightarrow> find P ys | Some x \<Rightarrow> Some x)"
  by (induction xs) auto

lemma set_insertSorted: "set (insertSorted cmp x ys) = insert x (set ys)"
  by (induction ys) auto

lemma set_sortBy: "set (sortBy cmp xs) = set xs"
  by (induction xs) (simp_all add: sortBy_def set_insertSorted)

lemma distinct_map_insertSorted:
  "distinct (map f (insertSorted cmp x ys)) = (f x \<notin> f ` set ys \<and> distinct (map f ys))"
  by (induction ys) (auto simp: set_insertSorted)

lemma distinct_map_sortBy: "distinct (map f (sortBy cmp xs)) = distinct (map f xs)"
  by (induction xs)
    (simp_all add: sortBy_def distinct_map_insertSorted set_sortBy [unfolded sortBy_def])

lemma set_slice0: "set (slice0 xs n) \<subseteq> set xs"
  by (cases n) (auto dest: in_set_takeD)

lemma distinct_map_slice0: "distinct (map f xs) \<Longrightarrow> distinct (map f (slice0 xs n))"
  by (cases n) (simp_all add: take_map [symmetric])

lemma sorted_wrt_slice0: "sorted_wrt R xs \<Longrightarrow> sorted_wrt R (slice0 xs n)"
  by (cases n) (simp_all add: sorted_wrt_take)

lemma length_slice0: "0 \<le> n \<Longrightarrow> int (length (slice0 xs (Num n))) \<le> n"
  by simp

lemma result_subset_merged:
  "queryLoop env initialState (searchQueries maxResults offs) = Some st \<Longrightarrow>
   set (searchArxivPapers env maxResults offs) \<subseteq> set (allPapers st)"
  using set_slice0 [of "sortBy (compareFn (dateTime env)) (allPapers st)" maxResults]
  by (simp add: searchArxivPapers_def set_sortBy)

section \<open>The merge\<close>

lemma calls_processEntry:
  "calls (processEntry env st e) = snd (parseEntry env (calls st) e)"
  by (cases "parseEntry env (calls st) e") (simp add: processEntry_def)

lemma find_emitted_None:
  assumes "\<forall>c \<in> set built. 100 < length (abstract c) \<longrightarrow> paperId c \<in> S" and "i \<notin> S"
  shows "find (emitted i) built = None"
  using assms by (auto simp: find_None_iff emitted_def)

lemma mergeInv_step:
  assumes "mergeInv st built"
  shows "mergeInv (processEntry env st e) (built @ [fst (parseEntry env (calls st) e)])"
proof (cases "parseEntry env (calls st) e")
  case (Pair p w)
  from assms have seen: "seenIds st = map paperId (allPapers st)"
    and dist: "distinct (seenIds st)"
    and first: "\<forall>q \<in> set (allPapers st). find (emitted (paperId q)) built = Some q"
    and cover: "\<forall>c \<in> set built. 100 < length (abstract c) \<longrightarrow> paperId c \<in> set (seenIds st)"
    unfolding mergeInv_def by blast+
  have old: "find (emitted (paperId q)) (built @ [p]) = Some q" if "q \<in> set (allPapers st)" for q
    using first that by (simp add: find_append_cases)
  show ?thesis
  proof (cases "paperId p \<notin> set (seenIds st) \<and> 100 < length (abstract p)")
    case True
    then have new: "find (emitted (paperId p)) built = None"
      using find_emitted_None [OF cover] by blast
    have kept: "find (emitted (paperId p)) (built @ [p]) = Some p"
      using True new by (simp add: find_append_cases emitted_def)
    have st': "processEntry env st e
        = \<lparr>allPapers = allPapers st @ [p], seenIds = seenIds st @ [paperId p], calls = w\<rparr>"
      using True Pair by (simp add: processEntry_def)
    have "\<forall>q \<in> set (allPapers st @ [p]). find (emitted (paperId q)) (built @ [p]) = Some q"
      using old kept by auto
    moreover have "\<forall>c \<in> set (built @ [p]).
        100 < length (abstract c) \<longrightarrow> paperId c \<in> set (seenIds st @ [paperId p])"
      using cover by auto
    moreover have "distinct (seenIds st @ [paperId p])" using dist True by simp
    moreover have "seenIds st @ [paperId p] = map paperId (allPapers st @ [p])"
      using seen by simp
    ultimately show ?thesis
      unfolding mergeInv_def st' Pair by simp
  next
    case False
    have st': "processEntry env st e = st\<lparr>calls := w\<rparr>"
      using False Pair by (simp add: processEntry_def)
    have "\<forall>q \<in> set (allPapers st). find (emitted (paperId q)) (built @ [p]) = Some q"
      using old by auto
    moreover have "\<forall>c \<in> set (built @ [p]).
        100 < length (abstract c) \<longrightarrow> paperId c \<in> set (seenIds st)"
      using cover False by auto
    ultimately show ?thesis
      unfolding mergeInv_def st' Pair using seen dist by simp
  qed
qed

lemma mergeInv_entries:
  "mergeInv st built \<Longrightarrow>
   mergeInv (foldl (processEntry env) st es) (built @ builtEntries env (calls st) es)
   \<and> calls (foldl (processEntry env) st es) = countersAfter env (calls st) es"
proof (induction es arbitrary: st built)
  case Nil
  then show ?case by (simp add: countersAfter_def)
next
  case (Cons e es)
  from mergeInv_step [OF Cons.prems, of env e]
  have "mergeInv (processEntry env st e) (built @ [fst (parseEntry env (calls st) e)])" .
  from Cons.IH [OF this] show ?case
    by (simp add: calls_processEntry countersAfter_def)
qed

lemma mergeInv_queries:
  "mergeInv st built \<Longrightarrow> queryLoop env st qs = Some st' \<Longrightarrow>
   mergeInv st' (built @ builtQueries env (calls st) qs)"
proof (induction qs arbitrary: st built)
  case Nil
  then show ?case by simp
next
  case (Cons q qs)
  show ?case
  proof (cases "fetchArxiv env q")
    case Rejected
    with Cons.prems show ?thesis by simp
  next
    case (Body xmlText)
    let ?st = "foldl (processEntry env) st (entriesOf xmlText)"
    from mergeInv_entries [OF Cons.prems(1), of env "entriesOf xmlText"]
    have inv: "mergeInv ?st (built @ builtEntries env (calls st) (entriesOf xmlText))"
      and cs: "calls ?st = countersAfter env (calls st) (entriesOf xmlText)" by simp_all
    from Cons.prems(2) Body have "queryLoop env ?st qs = Some st'" by simp
    from Cons.IH [OF inv this] show ?thesis using Body cs by simp
  qed
qed

lemma mergeInv_initial: "mergeInv initialState []"
  by (simp add: mergeInv_def initialState_def)

lemma queryLoop_rejected:
  "q \<in> set qs \<Longrightarrow> fetchArxiv env q = Rejected \<Longrightarrow> queryLoop env st qs = None"
proof (induction qs arbitrary: st)
  case Nil
  then show ?case by simp
next
  case (Cons a qs)
  then show ?case by (cases "fetchArxiv env a") auto
qed

section \<open>The discard rule along the loops\<close>

lemma abstract_parseEntry: "abstract (fst (parseEntry env w entry)) = abstractOf entry"
  by (simp add: parseEntry_def Let_def)

lemma processEntry_short:
  assumes "length (abstractOf entry) \<le> 100"
  shows "allPapers (processEntry env st entry) = allPapers st
         \<and> seenIds (processEntry env st entry) = seenIds st"
  using assms abstract_parseEntry [of env "calls st" entry]
  by (cases "parseEntry env (calls st) entry") (simp add: processEntry_def)

lemma allPapers_long_step:
  "\<forall>p \<in> set (allPapers st). 100 < length (abstract p) \<Longrightarrow>
   \<forall>p \<in> set (allPapers (processEntry env st e)). 100 < length (abstract p)"
  by (cases "parseEntry env (calls st) e") (auto simp: processEntry_def)

lemma allPapers_long_entries:
  "\<forall>p \<in> set (allPapers st). 100 < length (abstract p) \<Longrightarrow>
   \<forall>p \<in> set (allPapers (foldl (processEntry env) st es)). 100 < length (abstract p)"
proof (induction es arbitrary: st)
  case Nil
  then show ?case by simp
next
  case (Cons e es)
  from allPapers_long_step [OF Cons.prems, of env e] Cons.IH show ?case by simp
qed

lemma allPapers_long_queries:
  "\<forall>p \<in> set (allPapers st). 100 < length (abstract p) \<Longrightarrow> queryLoop env st qs = Some st' \<Longrightarrow>
   \<forall>p \<in> set (allPapers st'). 100 < length (abstract p)"
proof (induction qs arbitrary: st)
  case Nil
  then show ?case by simp
next
  case (Cons q qs)
  show ?case
  proof (cases "fetchArxiv env q")
    case Rejected
    with Cons.prems show ?thesis by simp
  next
    case (Body xmlText)
    with Cons.prems(2)
    have "queryLoop env (foldl (processEntry env) st (entriesOf xmlText)) qs = Some st'"
      by simp
    from Cons.IH [OF allPapers_long_entries [OF Cons.prems(1)] this] show ?thesis .
  qed
qed

section \<open>The order of the result\<close>

lemma sortCompare_parsed:
  assumes "dt (publishedAt x) = Some tx" and "dt (publishedAt y) = Some ty"
  shows "sortCompare (compareFn dt) x y = ty - tx"
  using assms by (simp add: sortCompare_def compareFn_def)

lemma newerFirst_insertSorted:
  assumes "\<forall>p \<in> set (x # ys). dt (publishedAt p) \<noteq> None"
    and "sorted_wrt (newerFirst dt) ys"
  shows "sorted_wrt (newerFirst dt) (insertSorted (compareFn dt) x ys)"
  using assms
proof (induction ys)
  case Nil
  then show ?case by simp
next
  case (Cons y ys)
  from Cons.prems(1) obtain tx ty
    where tx: "dt (publishedAt x) = Some tx" and ty: "dt (publishedAt y) = Some ty"
    by auto
  show ?case
  proof (cases "0 < sortCompare (compareFn dt) x y")
    case True
    then have "tx < ty" using sortCompare_parsed [OF tx ty] by simp
    then have yx: "newerFirst dt y x" by (simp add: newerFirst_def tx ty)
    have tail: "sorted_wrt (newerFirst dt) (insertSorted (compareFn dt) x ys)"
      using Cons by simp
    have "\<forall>z \<in> set (insertSorted (compareFn dt) x ys). newerFirst dt y z"
      using Cons.prems(2) yx by (auto simp: set_insertSorted)
    with tail True show ?thesis by simp
  next
    case False
    then have le: "ty \<le> tx" using sortCompare_parsed [OF tx ty] by simp
    have "newerFirst dt x z" if "z \<in> set (y # ys)" for z
    proof -
      from that Cons.prems(1) obtain tz where tz: "dt (publishedAt z) = Some tz" by auto
      have "tz \<le> ty"
        using that Cons.prems(2) tz ty by (auto simp: newerFirst_def)
      with le show ?thesis by (simp add: newerFirst_def tx tz)
    qed
    with False Cons.prems(2) show ?thesis by auto
  qed
qed

lemma newerFirst_sortBy:
  "\<forall>p \<in> set xs. dt (publishedAt p) \<noteq> None \<Longrightarrow>
   sorted_wrt (newerFirst dt) (sortBy (compareFn dt) xs)"
proof (induction xs)
  case Nil
  then show ?case by (simp add: sortBy_def)
next
  case (Cons x xs)
  then have "sorted_wrt (newerFirst dt) (sortBy (compareFn dt) xs)" by simp
  moreover have "\<forall>p \<in> set (x # sortBy (compareFn dt) xs). dt (publishedAt p) \<noteq> None"
    using Cons.prems by (simp add: set_sortBy)
  ultimately
  have "sorted_wrt (newerFirst dt) (insertSorted (compareFn dt) x (sortBy (compareFn dt) xs))"
    by (rule newerFirst_insertSorted [rotated])
  then show ?case by (simp add: sortBy_def)
qed

lemma descending_of_newerFirst:
  "sorted_wrt (newerFirst dt) ps \<Longrightarrow> descendingByTime dt ps"
proof (induction ps)
  case Nil
  then show ?case by (simp add: descendingByTime_def map_filter_simps)
next
  case (Cons p ps)
  then have tail: "descendingByTime dt ps" by simp
  show ?case
  proof (cases "dt (publishedAt p)")
    case None
    with tail show ?thesis by (simp add: descendingByTime_def map_filter_simps)
  next
    case (Some tp)
    have "t \<le> tp" if "t \<in> set (List.map_filter (\<lambda>p. dt (publishedAt p)) ps)" for t
    proof -
      from that obtain q where q: "q \<in> set ps" "dt (publishedAt q) = Some t"
        by (auto simp: map_filter_def)
      with Cons.prems have "newerFirst dt p q" by auto
      with Some q show ?thesis by (simp add: newerFirst_def)
    qed
    with tail Some show ?thesis by (simp add: descendingByTime_def map_filter_simps)
  qed
qed

section \<open>The enrichment fields\<close>

lemma truthy_orDefault: "d \<noteq> [] \<Longrightarrow> truthy (orDefault v d)"
  by (cases v) auto

lemma extractFields_tag:
  "tagVar (extractFields extracted defaultEnrichment) =
     (case getProp extracted ''tag'' of None \<Rightarrow> JStr ''ML research''
      | Some v \<Rightarrow> orDefault v ''ML research'')"
  by (cases extracted) (simp_all add: extractFields_def defaultEnrichment_def Let_def)

lemma extractFields_question:
  "questionVar (extractFields extracted defaultEnrichment) =
     (case getProp extracted ''question'' of None \<Rightarrow> JStr ''Q: Research question not extracted''
      | Some v \<Rightarrow> orDefault v ''Q: Research question not extracted'')"
  by (cases extracted) (simp_all add: extractFields_def defaultEnrichment_def Let_def)

lemma extractFields_answer:
  "answerVar (extractFields extracted defaultEnrichment) =
     (case getProp extracted ''answer'' of None \<Rightarrow> JStr ''A: Core idea not extracted''
      | Some v \<Rightarrow> orDefault v ''A: Core idea not extracted'')"
  by (cases extracted) (simp_all add: extractFields_def defaultEnrichment_def Let_def)

lemma extractFields_bet:
  "betVar (extractFields extracted defaultEnrichment) =
     (case getProp extracted ''bet'' of None \<Rightarrow> JStr ''Philosophical assumption not extracted''
      | Some v \<Rightarrow> orDefault v ''Philosophical assumption not extracted'')"
  by (cases extracted) (simp_all add: extractFields_def defaultEnrichment_def Let_def)

lemma orDefault_falsy:
  "absentOrFalsy extracted k \<Longrightarrow>
   (case getProp extracted k of None \<Rightarrow> JStr d | Some v \<Rightarrow> orDefault v d) = JStr d"
  by (auto simp: absentOrFalsy_def split: option.splits)

lemma orDefault_not_empty:
  assumes d: "d \<noteq> []"
  shows "(case getProp extracted k of None \<Rightarrow> JStr d | Some v \<Rightarrow> orDefault v d) \<noteq> JStr []"
proof
  assume e: "(case getProp extracted k of None \<Rightarrow> JStr d | Some v \<Rightarrow> orDefault v d) = JStr []"
  show False
  proof (cases "getProp extracted k")
    case None
    with d e show ?thesis by simp
  next
    case (Some v)
    with e have "orDefault v d = JStr []" by simp
    with truthy_orDefault [OF d, of v] show ?thesis by simp
  qed
qed

lemma processed_parsed:
  assumes "jsonParse (cleanResponse s) = Some extracted"
  shows "processPaperWithLLM jsonParse (LLMContent (Some s)) paper
         = withEnrichment paper
             (if s = [] then defaultEnrichment else extractFields extracted defaultEnrichment)"
  using assms by (simp add: processPaperWithLLM_def)

lemma default_fields:
  "tagVar defaultEnrichment = JStr ''ML research''"
  "questionVar defaultEnrichment = JStr ''Q: Research question not extracted''"
  "answerVar defaultEnrichment = JStr ''A: Core idea not extracted''"
  "betVar defaultEnrichment = JStr ''Philosophical assumption not extracted''"
  by (simp_all add: defaultEnrichment_def)

section \<open>The content of a paper\<close>

lemma unavailable_has_id: "includes_str (unavailableMessage arxivId) arxivId"
  unfolding unavailableMessage_def
  using includes_str_append [of "''Full paper content extraction is currently unavailable for this paper.'' @ [CHR 0x0A, CHR 0x0A] @ ''Paper ID: ''" arxivId]
  by simp

lemma unavailable_has_link:
  "includes_str (unavailableMessage arxivId) (''https://arxiv.org/pdf/'' @ arxivId @ ''.pdf'')"
  unfolding unavailableMessage_def
  using includes_str_append [of "''Full paper content extraction is currently unavailable for this paper.'' @ [CHR 0x0A, CHR 0x0A] @ ''Paper ID: '' @ arxivId @ [CHR 0x0A] @ ''Direct PDF link: ''" "''https://arxiv.org/pdf/'' @ arxivId @ ''.pdf''"]
  by simp

lemma textFormat_long: "textFormat env arxivId = Some t \<Longrightarrow> 1000 < length t"
  by (auto simp: textFormat_def Let_def split: http.splits if_splits)

lemma htmlExtraction_long: "htmlExtraction env arxivId = Some t \<Longrightarrow> 1000 < length t"
  by (auto simp: htmlExtraction_def Let_def split: http.splits if_splits)

lemma latexSource_long: "latexSource env arxivId = Some t \<Longrightarrow> 1000 < length t"
  by (auto simp: latexSource_def Let_def split: http.splits if_splits)

lemma unavailable_nonempty: "0 < length (unavailableMessage arxivId)"
  by (simp add: unavailableMessage_def)

lemma fetched_nonempty: "0 < length (fetchFullPaperContent env arxivId)"
proof (cases "textFormat env arxivId")
  case (Some t)
  from textFormat_long [OF Some] have "t \<noteq> []" by auto
  with Some show ?thesis by (simp add: fetchFullPaperContent_def)
next
  case None
  note n1 = this
  show ?thesis
  proof (cases "htmlExtraction env arxivId")
    case (Some t)
    from htmlExtraction_long [OF Some] have "t \<noteq> []" by auto
    with n1 Some show ?thesis by (simp add: fetchFullPaperContent_def)
  next
    case None
    note n2 = this
    show ?thesis
    proof (cases "latexSource env arxivId")
      case (Some t)
      from latexSource_long [OF Some] have "t \<noteq> []" by auto
      with n1 n2 Some show ?thesis by (simp add: fetchFullPaperContent_def)
    next
      case None
      with n1 n2 unavailable_nonempty show ?thesis by (simp add: fetchFullPaperContent_def)
    qed
  qed
qed

section \<open>The concrete runs, evaluated\<close>

lemma parseEntry_same_env:
  "mathRandom env = mathRandom env' \<Longrightarrow> nowISO env = nowISO env' \<Longrightarrow>
   parseEntry env w e = parseEntry env' w e"
  by (simp add: parseEntry_def Let_def cong: option.case_cong)

lemma parseEntry_stubIndex:
  "parseEntry (stubIndex a b) w e = parseEntry failingIndex w e"
  by (rule parseEntry_same_env) (simp_all add: stubIndex_def failingIndex_def)

lemma parse_first_closed: "parseEntry failingIndex noCalls entryFirst = (paperFirst, noCalls)"
  by code_simp

lemma parse_stub_closed: "parseEntry failingIndex noCalls entryStub = (paperStub, noCalls)"
  by code_simp

lemma parse_again_closed: "parseEntry failingIndex noCalls entryAgain = (paperAgain, noCalls)"
  by code_simp

lemma parse_second_closed: "parseEntry failingIndex noCalls entrySecond = (paperSecond, noCalls)"
  by code_simp

lemma parse_undated_closed:
  "parseEntry failingIndex noCalls entryUndated = (paperUndated, noCalls)"
  by code_simp

lemma fixture_parses:
  "parseEntry (stubIndex a b) noCalls entryFirst = (paperFirst, noCalls)"
  "parseEntry (stubIndex a b) noCalls entryStub = (paperStub, noCalls)"
  "parseEntry (stubIndex a b) noCalls entryAgain = (paperAgain, noCalls)"
  "parseEntry (stubIndex a b) noCalls entrySecond = (paperSecond, noCalls)"
  "parseEntry (stubIndex a b) noCalls entryUndated = (paperUndated, noCalls)"
  by (simp_all add: parseEntry_stubIndex parse_first_closed parse_stub_closed parse_again_closed
      parse_second_closed parse_undated_closed)

lemma entries_empty: "entriesOf ''<feed>'' = []"
  by code_simp

lemma entries_first: "entriesOf (feedOf [entryFirst]) = [entryFirst]"
  by code_simp

lemma entries_dupA: "entriesOf (feedOf [entryFirst, entryStub]) = [entryFirst, entryStub]"
  by code_simp

lemma entries_dupB: "entriesOf (feedOf [entryAgain, entrySecond]) = [entryAgain, entrySecond]"
  by code_simp

lemma entries_undated:
  "entriesOf (feedOf [entryFirst, entryUndated, entrySecond])
     = [entryFirst, entryUndated, entrySecond]"
  by code_simp

lemmas fixture_entries = entries_empty entries_first entries_dupA entries_dupB entries_undated

lemma fetch_stubIndex:
  "fetchArxiv (stubIndex a b) q =
     (if startsWith (search_query q) ''cat:cs.'' then a
      else if startsWith (search_query q) ''cat:stat.'' then b
      else Body ''<feed>'')"
  by (simp add: stubIndex_def)

lemma dateTime_fixture:
  "dateTime dupIndex = stubDate" "dateTime undatedIndex = stubDate"
  "dateTime failingIndex = stubDate"
  by (simp_all add: stubIndex_def dupIndex_def undatedIndex_def failingIndex_def)

lemma length_longAbstract: "length longAbstract = 101"
  by (simp add: longAbstract_def)

lemma fixture_fields:
  "paperId (mkPaper i p h s) = i" "abstract (mkPaper i p h s) = s"
  "publishedAt (mkPaper i p h s) = p" "content (mkPaper i p h s) = None"
  by (simp_all add: mkPaper_def)

lemmas fixture_papers =
  paperFirst_def paperStub_def paperAgain_def paperSecond_def paperUndated_def

lemma initial_calls: "initialState = \<lparr>allPapers = [], seenIds = [], calls = noCalls\<rparr>"
  by (simp add: initialState_def noCalls_def)

lemma step_first:
  "processEntry (stubIndex a b) \<lparr>allPapers = ps, seenIds = ids, calls = noCalls\<rparr> entryFirst =
     (if ''2401.00001v1'' \<notin> set ids
      then \<lparr>allPapers = ps @ [paperFirst], seenIds = ids @ [''2401.00001v1''], calls = noCalls\<rparr>
      else \<lparr>allPapers = ps, seenIds = ids, calls = noCalls\<rparr>)"
  by (simp add: processEntry_def fixture_parses paperFirst_def fixture_fields length_longAbstract)

lemma step_stub:
  "processEntry (stubIndex a b) \<lparr>allPapers = ps, seenIds = ids, calls = noCalls\<rparr> entryStub =
     \<lparr>allPapers = ps, seenIds = ids, calls = noCalls\<rparr>"
  by (simp add: processEntry_def fixture_parses paperStub_def fixture_fields)

lemma step_again:
  "processEntry (stubIndex a b) \<lparr>allPapers = ps, seenIds = ids, calls = noCalls\<rparr> entryAgain =
     (if ''2401.00001v1'' \<notin> set ids
      then \<lparr>allPapers = ps @ [paperAgain], seenIds = ids @ [''2401.00001v1''], calls = noCalls\<rparr>
      else \<lparr>allPapers = ps, seenIds = ids, calls = noCalls\<rparr>)"
  by (simp add: processEntry_def fixture_parses paperAgain_def fixture_fields length_longAbstract)

lemma step_second:
  "processEntry (stubIndex a b) \<lparr>allPapers = ps, seenIds = ids, calls = noCalls\<rparr> entrySecond =
     (if ''2401.00002v1'' \<notin> set ids
      then \<lparr>allPapers = ps @ [paperSecond], seenIds = ids @ [''2401.00002v1''], calls = noCalls\<rparr>
      else \<lparr>allPapers = ps, seenIds = ids, calls = noCalls\<rparr>)"
  by (simp add: processEntry_def fixture_parses paperSecond_def fixture_fields length_longAbstract)

lemma step_undated:
  "processEntry (stubIndex a b) \<lparr>allPapers = ps, seenIds = ids, calls = noCalls\<rparr> entryUndated =
     (if ''2401.00003v1'' \<notin> set ids
      then \<lparr>allPapers = ps @ [paperUndated], seenIds = ids @ [''2401.00003v1''], calls = noCalls\<rparr>
      else \<lparr>allPapers = ps, seenIds = ids, calls = noCalls\<rparr>)"
  by (simp add: processEntry_def fixture_parses paperUndated_def fixture_fields length_longAbstract)

lemmas fixture_steps = step_first step_stub step_again step_second step_undated

lemma fetches_failing:
  "map (fetchArxiv failingIndex) (searchQueries maxResults offs)
     = [Body (feedOf [entryFirst]), Rejected, Body ''<feed>'', Body ''<feed>'', Body ''<feed>'']"
  by (simp add: failingIndex_def searchQueries_def fetch_stubIndex)

lemma loop_dup:
  "queryLoop dupIndex initialState (searchQueries maxResults offs) =
     Some \<lparr>allPapers = [paperFirst, paperSecond],
           seenIds = [''2401.00001v1'', ''2401.00002v1''], calls = noCalls\<rparr>"
  by (simp add: dupIndex_def searchQueries_def fetch_stubIndex initial_calls fixture_entries
      fixture_steps)

lemma loop_undated:
  "queryLoop undatedIndex initialState (searchQueries maxResults offs) =
     Some \<lparr>allPapers = [paperFirst, paperUndated, paperSecond],
           seenIds = [''2401.00001v1'', ''2401.00003v1'', ''2401.00002v1''], calls = noCalls\<rparr>"
  by (simp add: undatedIndex_def searchQueries_def fetch_stubIndex initial_calls fixture_entries
      fixture_steps)

lemma loop_failing:
  "queryLoop failingIndex initialState (searchQueries maxResults offs) = None"
  by (simp add: failingIndex_def searchQueries_def fetch_stubIndex initial_calls fixture_entries
      fixture_steps)

lemma counters_fixture:
  "countersAfter (stubIndex a b) noCalls [] = noCalls"
  "countersAfter (stubIndex a b) noCalls [entryFirst, entryStub] = noCalls"
  "countersAfter (stubIndex a b) noCalls [entryFirst] = noCalls"
  "countersAfter (stubIndex a b) noCalls [entryAgain, entrySecond] = noCalls"
  by (simp_all add: countersAfter_def fixture_parses)

lemma built_dup:
  "builtPapers dupIndex maxResults offs = [paperFirst, paperStub, paperAgain, paperSecond]"
  by (simp add: builtPapers_def dupIndex_def searchQueries_def fetch_stubIndex initial_calls
      fixture_entries fixture_parses counters_fixture)

lemma built_failing: "builtPapers failingIndex maxResults offs = [paperFirst]"
  by (simp add: builtPapers_def failingIndex_def searchQueries_def fetch_stubIndex initial_calls
      fixture_entries fixture_parses counters_fixture)

lemma merged_dup: "mergedPapers dupIndex maxResults offs = [paperFirst, paperSecond]"
  by (simp add: mergedPapers_def loop_dup)

lemma stubDate_values:
  "stubDate ''2020-01-01T00:00:00Z'' = Some 1577836800000"
  "stubDate ''2021-01-01T00:00:00Z'' = Some 1609459200000"
  "stubDate [] = None"
  by (simp_all add: stubDate_def)

lemma sort_dup:
  "sortBy (compareFn stubDate) [paperFirst, paperSecond] = [paperSecond, paperFirst]"
  by (simp add: sortBy_def sortCompare_def compareFn_def fixture_papers fixture_fields
      stubDate_values)

lemma sort_undated:
  "sortBy (compareFn stubDate) [paperFirst, paperUndated, paperSecond]
     = [paperFirst, paperUndated, paperSecond]"
  by (simp add: sortBy_def sortCompare_def compareFn_def fixture_papers fixture_fields
      stubDate_values)

lemma result_dup:
  "searchArxivPapers dupIndex maxResults offs = slice0 [paperSecond, paperFirst] maxResults"
  by (simp add: searchArxivPapers_def loop_dup sort_dup dateTime_fixture)

lemma result_undated:
  "searchArxivPapers undatedIndex maxResults offs
     = slice0 [paperFirst, paperUndated, paperSecond] maxResults"
  by (simp add: searchArxivPapers_def loop_undated sort_undated dateTime_fixture)

lemma result_failing: "searchArxivPapers failingIndex maxResults offs = []"
  by (simp add: searchArxivPapers_def loop_failing)

lemma times_undated:
  "List.map_filter (\<lambda>p. stubDate (publishedAt p)) [paperFirst, paperUndated, paperSecond]
     = [1577836800000, 1609459200000]"
  by (simp add: map_filter_simps fixture_papers fixture_fields stubDate_values)

lemma clean_fencedReply: "cleanResponse fencedReply = replyJson"
  by code_simp

lemma fencedReply_not_empty: "fencedReply \<noteq> []"
  by (simp add: fencedReply_def)

lemma parse_fencedReply: "stubParse (cleanResponse fencedReply) = Some parsedReply"
  by (simp add: clean_fencedReply stubParse_def)

lemma down_methods:
  "textFormat downEnv i = None" "htmlExtraction downEnv i = None" "latexSource downEnv i = None"
  by (simp_all add: textFormat_def htmlExtraction_def latexSource_def downEnv_def)

lemma limitTwo_limit: "requestedLimit stubServices limitTwo = Num 2"
  by (simp add: requestedLimit_def stubServices_def limitTwo_def stubParseInt_def)

lemma limitTwo_reply: "GET_papers stubServices limitTwo = JsonReply limitTwoReply"
proof -
  have "arxiv stubServices = dupIndex" "complete stubServices = (\<lambda>paper. LLMRaises)"
    "parseInt stubServices (orString (offsetParam limitTwo) ''0'') = Num 0"
    by (simp_all add: stubServices_def limitTwo_def stubParseInt_def)
  then show ?thesis
    by (simp add: GET_papers_def Let_def limitTwo_limit result_dup limitTwoReply_def
        processPaperWithLLM_def)
qed

lemma junk_limit: "requestedLimit stubServices limitJunk = NaN"
  by (simp add: requestedLimit_def stubServices_def limitJunk_def stubParseInt_def)

lemma junk_reply: "GET_papers stubServices limitJunk = JsonReply limitJunkReply"
proof -
  have "arxiv stubServices = dupIndex"
    "parseInt stubServices (orString (offsetParam limitJunk) ''0'') = Num 0"
    by (simp_all add: stubServices_def limitJunk_def stubParseInt_def)
  then show ?thesis
    by (simp add: GET_papers_def Let_def junk_limit result_dup limitJunkReply_def)
qed

lemma abstract_stub: "abstractOf entryStub = ''Too short.''"
  using abstract_parseEntry [of failingIndex noCalls entryStub]
  by (simp add: parse_stub_closed paperStub_def fixture_fields)

lemma second_query:
  "searchQueries (Num 10) (Num 0) ! 1 \<in> set (searchQueries (Num 10) (Num 0))"
  "fetchArxiv failingIndex (searchQueries (Num 10) (Num 0) ! 1) = Rejected"
  by (simp_all add: searchQueries_def failingIndex_def fetch_stubIndex)

lemma third_query:
  "fetchArxiv failingIndex (searchQueries (Num 10) (Num 0) ! 2) = Body ''<feed>''"
  by (simp add: searchQueries_def failingIndex_def fetch_stubIndex)

lemma down_fetched:
  "fetchFullPaperContent downEnv i = unavailableMessage i"
  by (simp add: fetchFullPaperContent_def down_methods)

section \<open>The Multi-Query Fetcher\<close>

text \<open>
  Claim C1, as the code has it. The loop over the five queries stands in one \<open>try\<close>
  block whose handler returns the empty array. So when the fetch of any one query
  rejects, \<open>searchArxivPapers\<close> returns the empty list, whatever the other queries
  returned. A query leaves the Papers of the other queries in place only when its fetch
  succeeds and its body holds no entry: the loop then goes on from the same state.
\<close>

theorem rejected_fetch_empties_result:
  "(q \<in> set (searchQueries maxResults offs) \<and> fetchArxiv env q = Rejected
      \<longrightarrow> searchArxivPapers env maxResults offs = [])
   \<and> (fetchArxiv env q' = Body xmlText \<and> entriesOf xmlText = []
      \<longrightarrow> queryLoop env st (q' # qs) = queryLoop env st qs)"
  by (auto simp: searchArxivPapers_def queryLoop_rejected)

text \<open>
  On \<open>failingIndex\<close> the second query rejects and the result is empty; the third query
  returns a feed without entries and leaves the state of the loop as it is.
\<close>

theorem rejected_fetch_empties_result_witness:
  "searchQueries (Num 10) (Num 0) ! 1 \<in> set (searchQueries (Num 10) (Num 0))
   \<and> fetchArxiv failingIndex (searchQueries (Num 10) (Num 0) ! 1) = Rejected
   \<and> searchArxivPapers failingIndex (Num 10) (Num 0) = []
   \<and> fetchArxiv failingIndex (searchQueries (Num 10) (Num 0) ! 2) = Body ''<feed>''
   \<and> entriesOf ''<feed>'' = []
   \<and> queryLoop failingIndex initialState [searchQueries (Num 10) (Num 0) ! 2]
       = Some initialState"
  using rejected_fetch_empties_result
    [of "searchQueries (Num 10) (Num 0) ! 1" "Num 10" "Num 0" failingIndex
        "searchQueries (Num 10) (Num 0) ! 2" "''<feed>''" initialState "[]"]
    second_query third_query entries_empty
  by simp

text \<open>
  Claim C1 as stated fails. On \<open>failingIndex\<close> the first query succeeds and its entry
  is built into \<open>paperFirst\<close>, which passes the discard rule; the fetch of the second
  query rejects; the three other queries succeed. The claim asks for \<open>paperFirst\<close> in
  the result, and the result is empty.
\<close>

theorem failed_query_drops_other_papers:
  "map (fetchArxiv failingIndex) (searchQueries (Num 10) (Num 0))
     = [Body (feedOf [entryFirst]), Rejected, Body ''<feed>'', Body ''<feed>'', Body ''<feed>'']
   \<and> builtPapers failingIndex (Num 10) (Num 0) = [paperFirst]
   \<and> 100 < length (abstract paperFirst)
   \<and> searchArxivPapers failingIndex (Num 10) (Num 0) = []
   \<and> paperFirst \<notin> set (searchArxivPapers failingIndex (Num 10) (Num 0))"
  by (simp add: fetches_failing built_failing result_failing paperFirst_def fixture_fields
      length_longAbstract)

text \<open>
  Claim C2, as the code has it. The list that \<open>searchArxivPapers\<close> returns holds no
  two Papers with the same id. A Paper of the result is the first one, in the order of
  the entries across the queries, among the built Papers with its id that the discard
  rule lets through: a later entry with the same id, from the same or from another
  query, never replaces it. An entry with a short abstract does not reserve its id: the
  test of the loop is \<open>!seenIds.has(arxivId) && abstract.length > 100\<close>, and only then
  is the id added to \<open>seenIds\<close>.
\<close>

theorem merged_ids_unique_first_emitted_kept:
  "distinct (map paperId (searchArxivPapers env maxResults offs))
   \<and> (\<forall>p \<in> set (searchArxivPapers env maxResults offs).
        find (emitted (paperId p)) (builtPapers env maxResults offs) = Some p)"
proof (cases "queryLoop env initialState (searchQueries maxResults offs)")
  case None
  then show ?thesis by (simp add: searchArxivPapers_def)
next
  case (Some st)
  from mergeInv_queries [OF mergeInv_initial Some]
  have inv: "mergeInv st (builtPapers env maxResults offs)"
    by (simp add: builtPapers_def)
  then have "distinct (map paperId (allPapers st))" unfolding mergeInv_def by metis
  then have d: "distinct (map paperId (searchArxivPapers env maxResults offs))"
    using Some by (simp add: searchArxivPapers_def distinct_map_slice0 distinct_map_sortBy)
  from inv have "\<forall>p \<in> set (allPapers st).
      find (emitted (paperId p)) (builtPapers env maxResults offs) = Some p"
    unfolding mergeInv_def by blast
  with result_subset_merged [OF Some] d show ?thesis by blast
qed

text \<open>
  On \<open>dupIndex\<close> the id \<open>2401.00001v1\<close> comes from both queries and the Paper of the
  first query is kept; the id \<open>2401.00002v1\<close> has a short abstract in the first query,
  and the Paper of the second query is kept.
\<close>

theorem merged_ids_unique_first_emitted_kept_witness:
  "builtPapers dupIndex (Num 10) (Num 0) = [paperFirst, paperStub, paperAgain, paperSecond]
   \<and> searchArxivPapers dupIndex (Num 10) (Num 0) = [paperSecond, paperFirst]
   \<and> distinct (map paperId (searchArxivPapers dupIndex (Num 10) (Num 0)))
   \<and> find (emitted (paperId paperFirst)) (builtPapers dupIndex (Num 10) (Num 0))
       = Some paperFirst
   \<and> find (emitted (paperId paperSecond)) (builtPapers dupIndex (Num 10) (Num 0))
       = Some paperSecond"
  using merged_ids_unique_first_emitted_kept [of dupIndex "Num 10" "Num 0"]
  by (simp add: result_dup built_dup)

text \<open>
  Claim C2 as stated fails where the first occurrence of an id has a short abstract. On
  \<open>dupIndex\<close> the id \<open>2401.00002v1\<close> occurs first in the first query, in an entry built
  into \<open>paperStub\<close>, and again in the second query, in an entry built into
  \<open>paperSecond\<close>. The Paper kept for that id is \<open>paperSecond\<close>, not the one built from
  the first occurrence.
\<close>

theorem first_occurrence_dropped_later_kept:
  "builtPapers dupIndex (Num 10) (Num 0) = [paperFirst, paperStub, paperAgain, paperSecond]
   \<and> paperId paperFirst \<noteq> ''2401.00002v1''
   \<and> paperId paperStub = ''2401.00002v1''
   \<and> paperId paperSecond = ''2401.00002v1''
   \<and> paperSecond \<noteq> paperStub
   \<and> searchArxivPapers dupIndex (Num 10) (Num 0) = [paperSecond, paperFirst]
   \<and> paperStub \<notin> set (searchArxivPapers dupIndex (Num 10) (Num 0))"
  by (simp add: built_dup result_dup) (simp add: fixture_papers mkPaper_def)

text \<open>
  Claim C3, as the code has it. For every requested count \<open>n \<ge> 0\<close> the result has at
  most \<open>n\<close> Papers, whatever the timestamps are. For every requested count, when the
  \<open>publishedAt\<close> of every merged Paper parses as a timestamp, the result is sorted by
  it, newest first. The code has no rule for a value that does not parse (the comparison
  is \<open>NaN\<close>, which the sort reads as a tie), and a negative count makes \<open>slice\<close> count
  from the end of the array.
\<close>

theorem result_sorted_and_bounded:
  "(0 \<le> n \<longrightarrow> int (length (searchArxivPapers env (Num n) offs)) \<le> n)
   \<and> ((\<forall>p \<in> set (mergedPapers env maxResults offs). dateTime env (publishedAt p) \<noteq> None)
        \<longrightarrow> sorted_wrt (newerFirst (dateTime env)) (searchArxivPapers env maxResults offs)
            \<and> descendingByTime (dateTime env) (searchArxivPapers env maxResults offs))"
proof (intro conjI impI)
  assume "0 \<le> n"
  then show "int (length (searchArxivPapers env (Num n) offs)) \<le> n"
    by (cases "queryLoop env initialState (searchQueries (Num n) offs)")
      (simp_all add: searchArxivPapers_def length_slice0)
next
  assume parsed:
    "\<forall>p \<in> set (mergedPapers env maxResults offs). dateTime env (publishedAt p) \<noteq> None"
  show s: "sorted_wrt (newerFirst (dateTime env)) (searchArxivPapers env maxResults offs)"
  proof (cases "queryLoop env initialState (searchQueries maxResults offs)")
    case None
    then show ?thesis by (simp add: searchArxivPapers_def)
  next
    case (Some st)
    with parsed have "\<forall>p \<in> set (allPapers st). dateTime env (publishedAt p) \<noteq> None"
      by (simp add: mergedPapers_def)
    then have "sorted_wrt (newerFirst (dateTime env))
        (sortBy (compareFn (dateTime env)) (allPapers st))"
      by (rule newerFirst_sortBy)
    then show ?thesis
      using Some by (simp add: searchArxivPapers_def sorted_wrt_slice0)
  qed
  show "descendingByTime (dateTime env) (searchArxivPapers env maxResults offs)"
    using s by (rule descending_of_newerFirst)
qed

text \<open>
  On \<open>dupIndex\<close> with the count 2 both merged Papers have a timestamp that parses; the
  newer one comes first and the result has two Papers. On \<open>undatedIndex\<close> with the
  count 1 a merged Paper has a timestamp that does not parse, and the result still has
  one Paper.
\<close>

theorem result_sorted_and_bounded_witness:
  "(0::int) \<le> 2
   \<and> mergedPapers dupIndex (Num 2) (Num 0) = [paperFirst, paperSecond]
   \<and> dateTime dupIndex (publishedAt paperFirst) = Some 1577836800000
   \<and> dateTime dupIndex (publishedAt paperSecond) = Some 1609459200000
   \<and> searchArxivPapers dupIndex (Num 2) (Num 0) = [paperSecond, paperFirst]
   \<and> sorted_wrt (newerFirst (dateTime dupIndex)) (searchArxivPapers dupIndex (Num 2) (Num 0))
   \<and> descendingByTime (dateTime dupIndex) (searchArxivPapers dupIndex (Num 2) (Num 0))
   \<and> int (length (searchArxivPapers dupIndex (Num 2) (Num 0))) \<le> 2
   \<and> (0::int) \<le> 1
   \<and> dateTime undatedIndex (publishedAt paperUndated) = None
   \<and> searchArxivPapers undatedIndex (Num 1) (Num 0) = [paperFirst]
   \<and> int (length (searchArxivPapers undatedIndex (Num 1) (Num 0))) \<le> 1"
proof -
  have dates: "dateTime dupIndex (publishedAt paperFirst) = Some 1577836800000"
    "dateTime dupIndex (publishedAt paperSecond) = Some 1609459200000"
    "dateTime undatedIndex (publishedAt paperUndated) = None"
    by (simp_all add: dateTime_fixture fixture_papers fixture_fields stubDate_values)
  then have parsed:
    "\<forall>p \<in> set (mergedPapers dupIndex (Num 2) (Num 0)). dateTime dupIndex (publishedAt p) \<noteq> None"
    by (simp add: merged_dup)
  from result_sorted_and_bounded
      [where n = 2 and env = dupIndex and offs = "Num 0" and maxResults = "Num 2"]
    result_sorted_and_bounded
      [where n = 1 and env = undatedIndex and offs = "Num 0" and maxResults = "Num 1"]
    parsed dates
  show ?thesis
    by (simp add: merged_dup result_dup result_undated)
qed

text \<open>
  Claim C3 as stated fails, in both halves. On \<open>undatedIndex\<close> the second of three
  merged Papers has the timestamp \<open>''\<close>, which does not parse; the sort leaves the
  array as it is, and the Paper of 2020 stands before the Paper of 2021. On
  \<open>dupIndex\<close> with the requested count \<open>-1\<close> the result has one Paper, which is more
  than the count (\<open>slice(0, -1)\<close> drops the last element; no list is shorter than a
  negative count).
\<close>

theorem result_unsorted_or_longer:
  "searchArxivPapers undatedIndex (Num 10) (Num 0) = [paperFirst, paperUndated, paperSecond]
   \<and> dateTime undatedIndex (publishedAt paperFirst) = Some 1577836800000
   \<and> dateTime undatedIndex (publishedAt paperUndated) = None
   \<and> dateTime undatedIndex (publishedAt paperSecond) = Some 1609459200000
   \<and> \<not> descendingByTime (dateTime undatedIndex) (searchArxivPapers undatedIndex (Num 10) (Num 0))
   \<and> searchArxivPapers dupIndex (Num (- 1)) (Num 0) = [paperSecond]
   \<and> \<not> int (length (searchArxivPapers dupIndex (Num (- 1)) (Num 0))) \<le> - 1"
  by (simp add: result_undated result_dup descendingByTime_def dateTime_fixture times_undated)
    (simp add: fixture_papers fixture_fields stubDate_values)

text \<open>
  Claim C5. An entry whose extracted, whitespace-normalised abstract has at most 100
  characters adds no Paper to \<open>allPapers\<close> (and no id to \<open>seenIds\<close>), in every state of
  the loop; and every Paper that \<open>searchArxivPapers\<close> returns has an abstract longer
  than 100 characters.
\<close>

theorem short_abstract_not_emitted:
  "(length (abstractOf entry) \<le> 100 \<longrightarrow>
      allPapers (processEntry env st entry) = allPapers st
      \<and> seenIds (processEntry env st entry) = seenIds st)
   \<and> (\<forall>p \<in> set (searchArxivPapers env' maxResults offs). 100 < length (abstract p))"
proof -
  have "\<forall>p \<in> set (searchArxivPapers env' maxResults offs). 100 < length (abstract p)"
  proof (cases "queryLoop env' initialState (searchQueries maxResults offs)")
    case None
    then show ?thesis by (simp add: searchArxivPapers_def)
  next
    case (Some st')
    have "\<forall>p \<in> set (allPapers initialState). 100 < length (abstract p)"
      by (simp add: initialState_def)
    from allPapers_long_queries [OF this Some]
    have "\<forall>p \<in> set (allPapers st'). 100 < length (abstract p)" .
    with result_subset_merged [OF Some] show ?thesis by blast
  qed
  with processEntry_short show ?thesis by blast
qed

text \<open>
  The entry \<open>entryStub\<close> has the abstract \<open>Too short.\<close> and leaves the initial state
  without a Paper; \<open>paperSecond\<close>, in the result on \<open>dupIndex\<close>, has a long abstract.
\<close>

theorem short_abstract_not_emitted_witness:
  "abstractOf entryStub = ''Too short.''
   \<and> length (abstractOf entryStub) \<le> 100
   \<and> allPapers (processEntry dupIndex initialState entryStub) = []
   \<and> seenIds (processEntry dupIndex initialState entryStub) = []
   \<and> paperSecond \<in> set (searchArxivPapers dupIndex (Num 10) (Num 0))
   \<and> 100 < length (abstract paperSecond)"
  using short_abstract_not_emitted [of entryStub dupIndex initialState dupIndex "Num 10" "Num 0"]
  by (simp add: abstract_stub result_dup initialState_def)

section \<open>The Aggregation Endpoint\<close>

text \<open>
  Claim C4. When \<open>GET /papers\<close> answers with the envelope, \<open>hasMore\<close> is true exactly
  when the number of returned papers is at least the requested limit; for a limit that
  \<open>parseInt\<close> reads as \<open>NaN\<close> the comparison is false. \<open>total\<close> is that number.
\<close>

theorem hasMore_iff_limit_reached:
  assumes "GET_papers svc req = JsonReply r"
  shows "(requestedLimit svc req = Num n \<longrightarrow> hasMore r = (n \<le> int (length (papers r))))
       \<and> (requestedLimit svc req = NaN \<longrightarrow> \<not> hasMore r)
       \<and> total r = length (papers r)"
  using assms by (auto simp: GET_papers_def Let_def)

text \<open>
  With \<open>limit=2\<close> on \<open>dupIndex\<close> two papers come back and \<open>hasMore\<close> is true; with
  \<open>limit=abc\<close> the limit is \<open>NaN\<close> and \<open>hasMore\<close> is false.
\<close>

theorem hasMore_iff_limit_reached_witness:
  "GET_papers stubServices limitTwo = JsonReply limitTwoReply
   \<and> requestedLimit stubServices limitTwo = Num 2
   \<and> length (papers limitTwoReply) = 2
   \<and> hasMore limitTwoReply = (2 \<le> int (length (papers limitTwoReply)))
   \<and> GET_papers stubServices limitJunk = JsonReply limitJunkReply
   \<and> requestedLimit stubServices limitJunk = NaN
   \<and> \<not> hasMore limitJunkReply"
  using hasMore_iff_limit_reached [OF limitTwo_reply, of 2]
    hasMore_iff_limit_reached [OF junk_reply, of 0]
  by (simp add: limitTwo_reply limitTwo_limit junk_reply junk_limit) (simp add: limitTwoReply_def)

section \<open>The Paper Enricher\<close>

text \<open>
  Claim C6. When the completion call raises, \<open>processPaperWithLLM\<close> returns a Paper
  whose \<open>tag\<close>, \<open>question\<close>, \<open>answer\<close> and \<open>bet\<close> are the four fixed default strings.
\<close>

theorem defaults_when_completion_raises:
  "tag (processPaperWithLLM jsonParse LLMRaises paper) = JStr ''ML research''
   \<and> question (processPaperWithLLM jsonParse LLMRaises paper)
       = JStr ''Q: Research question not extracted''
   \<and> answer (processPaperWithLLM jsonParse LLMRaises paper) = JStr ''A: Core idea not extracted''
   \<and> bet (processPaperWithLLM jsonParse LLMRaises paper)
       = JStr ''Philosophical assumption not extracted''"
  by (simp add: processPaperWithLLM_def withEnrichment_def defaultEnrichment_def)

theorem defaults_when_completion_raises_witness:
  "tag (processPaperWithLLM stubParse LLMRaises paperFirst) = JStr ''ML research''
   \<and> question (processPaperWithLLM stubParse LLMRaises paperFirst)
       = JStr ''Q: Research question not extracted''
   \<and> answer (processPaperWithLLM stubParse LLMRaises paperFirst)
       = JStr ''A: Core idea not extracted''
   \<and> bet (processPaperWithLLM stubParse LLMRaises paperFirst)
       = JStr ''Philosophical assumption not extracted''"
  using defaults_when_completion_raises [of stubParse paperFirst] by simp

text \<open>
  Claim C7, as the code has it. Whatever the completion call does,
  \<open>processPaperWithLLM\<close> returns the Paper with the \<open>id\<close>, \<open>title\<close>, \<open>authors\<close>,
  \<open>abstract\<close>, \<open>arxivUrl\<close> and \<open>publishedAt\<close> of its input; and it sets \<open>content\<close> to the
  empty string, on both of its \<open>return\<close> statements.
\<close>

theorem enricher_keeps_parsed_fields:
  "paperId (processPaperWithLLM jsonParse completion paper) = paperId paper
   \<and> title (processPaperWithLLM jsonParse completion paper) = title paper
   \<and> authors (processPaperWithLLM jsonParse completion paper) = authors paper
   \<and> abstract (processPaperWithLLM jsonParse completion paper) = abstract paper
   \<and> arxivUrl (processPaperWithLLM jsonParse completion paper) = arxivUrl paper
   \<and> publishedAt (processPaperWithLLM jsonParse completion paper) = publishedAt paper
   \<and> content (processPaperWithLLM jsonParse completion paper) = Some []"
  by (simp add: processPaperWithLLM_def withEnrichment_def split: llm_result.splits)

theorem enricher_keeps_parsed_fields_witness:
  "paperId (processPaperWithLLM stubParse (LLMContent (Some fencedReply)) paperFirst)
     = ''2401.00001v1''
   \<and> title (processPaperWithLLM stubParse (LLMContent (Some fencedReply)) paperFirst) = ''First''
   \<and> authors (processPaperWithLLM stubParse (LLMContent (Some fencedReply)) paperFirst)
       = [''Ada'']
   \<and> abstract (processPaperWithLLM stubParse (LLMContent (Some fencedReply)) paperFirst)
       = longAbstract
   \<and> arxivUrl (processPaperWithLLM stubParse (LLMContent (Some fencedReply)) paperFirst)
       = ''http://arxiv.org/abs/2401.00001v1''
   \<and> publishedAt (processPaperWithLLM stubParse (LLMContent (Some fencedReply)) paperFirst)
       = ''2020-01-01T00:00:00Z''
   \<and> content (processPaperWithLLM stubParse (LLMContent (Some fencedReply)) paperFirst)
       = Some []"
  using enricher_keeps_parsed_fields [of stubParse "LLMContent (Some fencedReply)" paperFirst]
  by (simp add: paperFirst_def mkPaper_def)

text \<open>
  Claim C7 as stated fails on \<open>content\<close>. The Paper \<open>paperFirst\<close>, as the fetcher builds
  it, has no \<open>content\<close>; the Paper that \<open>processPaperWithLLM\<close> returns for it has the
  \<open>content\<close> \<open>''\<close>.
\<close>

theorem enricher_sets_content:
  "content paperFirst = None
   \<and> content (processPaperWithLLM stubParse LLMRaises paperFirst) = Some []
   \<and> content (processPaperWithLLM stubParse LLMRaises paperFirst) \<noteq> content paperFirst"
  by (simp add: processPaperWithLLM_def withEnrichment_def paperFirst_def mkPaper_def)

text \<open>
  Claim C10. When the response, cleaned of its code fence, parses as JSON, a field that
  is missing from the parsed value and a field that is there with a falsy value (the
  empty string, \<open>null\<close>, \<open>false\<close>, 0) both get the fixed default string; and none of the
  four fields of the returned Paper is the empty string. (An empty response is not
  parsed and gets the four defaults.)
\<close>

theorem falsy_field_gets_default:
  assumes "jsonParse (cleanResponse s) = Some extracted"
  shows "(absentOrFalsy extracted ''tag'' \<longrightarrow>
            tag (processPaperWithLLM jsonParse (LLMContent (Some s)) paper) = JStr ''ML research'')
       \<and> (absentOrFalsy extracted ''question'' \<longrightarrow>
            question (processPaperWithLLM jsonParse (LLMContent (Some s)) paper)
              = JStr ''Q: Research question not extracted'')
       \<and> (absentOrFalsy extracted ''answer'' \<longrightarrow>
            answer (processPaperWithLLM jsonParse (LLMContent (Some s)) paper)
              = JStr ''A: Core idea not extracted'')
       \<and> (absentOrFalsy extracted ''bet'' \<longrightarrow>
            bet (processPaperWithLLM jsonParse (LLMContent (Some s)) paper)
              = JStr ''Philosophical assumption not extracted'')
       \<and> tag (processPaperWithLLM jsonParse (LLMContent (Some s)) paper) \<noteq> JStr []
       \<and> question (processPaperWithLLM jsonParse (LLMContent (Some s)) paper) \<noteq> JStr []
       \<and> answer (processPaperWithLLM jsonParse (LLMContent (Some s)) paper) \<noteq> JStr []
       \<and> bet (processPaperWithLLM jsonParse (LLMContent (Some s)) paper) \<noteq> JStr []"
  unfolding processed_parsed [of jsonParse s extracted paper, OF assms]
  by (simp add: withEnrichment_def default_fields extractFields_tag extractFields_question
      extractFields_answer extractFields_bet orDefault_falsy orDefault_not_empty)

text \<open>
  The fenced reply parses to an object whose \<open>tag\<close> is the empty string and that has
  no \<open>answer\<close> and no \<open>bet\<close>: the three fields get their defaults, and the \<open>question\<close>
  is the extracted one.
\<close>

theorem falsy_field_gets_default_witness:
  "fencedReply \<noteq> []
   \<and> stubParse (cleanResponse fencedReply) = Some parsedReply
   \<and> getProp parsedReply ''tag'' = Some (Some (JStr []))
   \<and> absentOrFalsy parsedReply ''tag''
   \<and> absentOrFalsy parsedReply ''answer''
   \<and> absentOrFalsy parsedReply ''bet''
   \<and> tag (processPaperWithLLM stubParse (LLMContent (Some fencedReply)) paperFirst)
       = JStr ''ML research''
   \<and> answer (processPaperWithLLM stubParse (LLMContent (Some fencedReply)) paperFirst)
       = JStr ''A: Core idea not extracted''
   \<and> bet (processPaperWithLLM stubParse (LLMContent (Some fencedReply)) paperFirst)
       = JStr ''Philosophical assumption not extracted''
   \<and> question (processPaperWithLLM stubParse (LLMContent (Some fencedReply)) paperFirst)
       \<noteq> JStr []"
proof -
  have falsy: "absentOrFalsy parsedReply ''tag''" "absentOrFalsy parsedReply ''answer''"
    "absentOrFalsy parsedReply ''bet''" "getProp parsedReply ''tag'' = Some (Some (JStr []))"
    by (simp_all add: absentOrFalsy_def parsedReply_def)
  from falsy_field_gets_default
      [of stubParse fencedReply parsedReply paperFirst, OF parse_fencedReply]
    falsy fencedReply_not_empty parse_fencedReply
  show ?thesis by simp
qed

section \<open>The Content Fetcher\<close>

text \<open>
  Claim C8. When none of the three methods returns a text of more than 1000 characters,
  \<open>fetchFullPaperContent\<close> returns the placeholder message, which holds the paper id
  and the link \<open>https://arxiv.org/pdf/<id>.pdf\<close> to the document. The function is total:
  every failure inside a method falls through to the next one.
\<close>

theorem placeholder_names_id_and_link:
  assumes "textFormat env arxivId = None"
    and "htmlExtraction env arxivId = None"
    and "latexSource env arxivId = None"
  shows "fetchFullPaperContent env arxivId = unavailableMessage arxivId
       \<and> includes_str (fetchFullPaperContent env arxivId) arxivId
       \<and> includes_str (fetchFullPaperContent env arxivId)
           (''https://arxiv.org/pdf/'' @ arxivId @ ''.pdf'')"
  using assms unavailable_has_id unavailable_has_link
  by (simp add: fetchFullPaperContent_def)

text \<open>
  On \<open>downEnv\<close> the source is a gzip archive, the HTML text is short and the third
  fetch rejects.
\<close>

theorem placeholder_names_id_and_link_witness:
  "textFormat downEnv ''2401.00001v1'' = None
   \<and> htmlExtraction downEnv ''2401.00001v1'' = None
   \<and> latexSource downEnv ''2401.00001v1'' = None
   \<and> fetchFullPaperContent downEnv ''2401.00001v1'' = unavailableMessage ''2401.00001v1''
   \<and> includes_str (fetchFullPaperContent downEnv ''2401.00001v1'') ''2401.00001v1''
   \<and> includes_str (fetchFullPaperContent downEnv ''2401.00001v1'')
       (''https://arxiv.org/pdf/'' @ ''2401.00001v1'' @ ''.pdf'')"
  using placeholder_names_id_and_link [OF down_methods, of "''2401.00001v1''"]
  by (simp add: down_methods down_fetched)

text \<open>
  Claim C9. For a non-empty paper id, \<open>GET /papers/{id}/content\<close> answers with
  \<open>hasContent\<close> true: the text of a method that succeeds is longer than 1000 characters
  and the placeholder message is not empty. The message of the outer handler is not
  empty either.
\<close>

theorem hasContent_always_true:
  assumes "arxivId \<noteq> []"
  shows "GET_content env arxivId
           = JsonReply \<lparr>responseId = arxivId,
                        responseContent = fetchFullPaperContent env arxivId,
                        hasContent = True\<rparr>
       \<and> 0 < length (fetchFullPaperContent env arxivId)
       \<and> 0 < length (errorMessage arxivId)"
  using assms fetched_nonempty [of env arxivId]
  by (simp add: GET_content_def errorMessage_def Let_def)

theorem hasContent_always_true_witness:
  "''2401.00001v1'' \<noteq> []
   \<and> GET_content downEnv ''2401.00001v1''
       = JsonReply \<lparr>responseId = ''2401.00001v1'',
                    responseContent = unavailableMessage ''2401.00001v1'',
                    hasContent = True\<rparr>"
proof -
  have "''2401.00001v1'' \<noteq> []" by simp
  from hasContent_always_true [OF this, of downEnv] show ?thesis
    by (simp add: down_fetched)
qed

end
